theory Spec2Isabelle
  imports Complex_Main "HOL-Library.Sublist" "HOL-Library.Multiset"
begin

section \<open>JavaScript values and strings\<close>

text \<open>
  The development embeds \<^verbatim>\<open>src/src/services/SessionExtractor.js\<close>. Every exception the
  module can raise is a value of \<open>js_error\<close>; a fallible function returns
  \<open>js_error + 'a\<close> with \<open>Inl\<close> for the raise.

  \<^item> \<open>TypeError\<close>: calling a method the receiver does not have (\<^verbatim>\<open>content.filter\<close> on a
    string) or reading a property of \<^verbatim>\<open>undefined\<close>.
  \<^item> \<open>Thrown msg\<close>: an error raised by an external collaborator (text extraction,
    structure analysis, AI enhancement).
  \<^item> \<open>PlatformError e label\<close>: the value of
    \<^verbatim>\<open>PlatformUtils.handlePlatformError(e, label)\<close>; \<^verbatim>\<open>PlatformUtils\<close> is not among
    the sources, the model only records what was wrapped and under which label.
\<close>

datatype js_error = TypeError | Thrown string | PlatformError js_error string

text \<open>
  Strings are lists of 8-bit characters. Case conversion touches the 26 ASCII letters only;
  every comparison the module makes is against ASCII constants, for which this agrees with
  JavaScript's \<^verbatim>\<open>toLowerCase\<close> and with the \<^verbatim>\<open>i\<close> flag of its regular expressions.
\<close>

definition upper_letters :: string where
  "upper_letters = ''ABCDEFGHIJKLMNOPQRSTUVWXYZ''"

definition lower_letters :: string where
  "lower_letters = ''abcdefghijklmnopqrstuvwxyz''"

definition lower_char :: "char \<Rightarrow> char" where
  "lower_char c = (case map_of (zip upper_letters lower_letters) c of None \<Rightarrow> c | Some d \<Rightarrow> d)"

definition toLowerCase :: "string \<Rightarrow> string" where
  "toLowerCase s = map lower_char s"

definition is_digit :: "char \<Rightarrow> bool" where
  "is_digit c = (c \<in> set ''0123456789'')"

definition is_letter :: "char \<Rightarrow> bool" where
  "is_letter c = (c \<in> set upper_letters \<or> c \<in> set lower_letters)"

definition is_space :: "char \<Rightarrow> bool" where
  \<comment> \<open>the class \<^verbatim>\<open>\s\<close> on 8-bit characters: tab, LF, VT, FF, CR, space, NBSP\<close>
  "is_space c = (c \<in> set [CHR 0x09, CHR 0x0A, CHR 0x0B, CHR 0x0C, CHR 0x0D, CHR 0x20, CHR 0xA0])"

definition digit_val :: "char \<Rightarrow> nat" where
  "digit_val c = (case map_of (zip ''0123456789'' [0, 1, 2, 3, 4, 5, 6, 7, 8, 9]) c of
                    None \<Rightarrow> 0 | Some d \<Rightarrow> d)"

definition parseInt :: "string \<Rightarrow> nat" where
  \<comment> \<open>\<^verbatim>\<open>parseInt\<close> on a non-empty run of decimal digits, the only use the module makes of
      it; the value is exact, where JavaScript rounds a run above \<open>2^53\<close> to a double\<close>
  "parseInt ds = foldl (\<lambda>acc c. 10 * acc + digit_val c) 0 ds"

definition digit_char :: "nat \<Rightarrow> char" where
  "digit_char d = ''0123456789'' ! d"

fun decimal :: "nat \<Rightarrow> string" where
  "decimal n = (if n < 10 then [digit_char n] else decimal (n div 10) @ [digit_char (n mod 10)])"

declare decimal.simps [simp del]

definition substring :: "string \<Rightarrow> nat \<Rightarrow> nat \<Rightarrow> string" where
  \<comment> \<open>\<^verbatim>\<open>s.substring(a, b)\<close>: both ends clamped to the length, swapped when out of order\<close>
  "substring s a b =
     (let a' = min a (length s); b' = min b (length s); lo = min a' b'; hi = max a' b'
      in take (hi - lo) (drop lo s))"

definition indexOf :: "'a list \<Rightarrow> 'a \<Rightarrow> int" where
  \<comment> \<open>\<^verbatim>\<open>Array.prototype.indexOf\<close>: the first position, or \<open>-1\<close>\<close>
  "indexOf xs x = (if x \<in> set xs then int (length (takeWhile (\<lambda>y. y \<noteq> x) xs)) else - 1)"

definition js_rem :: "int \<Rightarrow> int \<Rightarrow> int" where
  \<comment> \<open>the \<^verbatim>\<open>%\<close> operator on integers: the remainder takes the sign of the dividend\<close>
  "js_rem a b = sgn a * (\<bar>a\<bar> mod \<bar>b\<bar>)"

section \<open>The Date Calculator\<close>

text \<open>
  \<^verbatim>\<open>calculateSessionDate\<close> reads the wall clock with \<^verbatim>\<open>new Date()\<close>. The clock is an
  explicit argument: the instant of the call in milliseconds since the epoch (UTC), and
  the offset of the device's local time from UTC in milliseconds, taken as fixed (no
  daylight-saving change inside the planning window; the representable range of
  \<^verbatim>\<open>Date\<close> is not modelled). A whole extraction reads one clock value.

  \<^verbatim>\<open>getDate\<close>, \<^verbatim>\<open>setDate\<close> and \<^verbatim>\<open>getDay\<close> work on the local calendar;
  \<^verbatim>\<open>toISOString\<close> prints the UTC calendar date. An ISO date \<^verbatim>\<open>YYYY-MM-DD\<close> is
  represented by its day number (days since 1970-01-01, a Thursday), which orders dates as
  \<^verbatim>\<open>new Date(a.date) - new Date(b.date)\<close> does.
\<close>

record clock =
  nowMs :: int
  tzOffsetMs :: int

definition msPerDay :: int where
  "msPerDay = 86400000"

definition weekdays :: "string list" where
  "weekdays = [''sunday'', ''monday'', ''tuesday'', ''wednesday'', ''thursday'', ''friday'', ''saturday'']"

definition weekdayOfDay :: "int \<Rightarrow> int" where
  \<comment> \<open>weekday index (Sunday = 0) of a day number\<close>
  "weekdayOfDay d = (d + 4) mod 7"

definition utcDay :: "clock \<Rightarrow> int" where
  "utcDay clk = nowMs clk div msPerDay"

definition localDay :: "clock \<Rightarrow> int" where
  "localDay clk = (nowMs clk + tzOffsetMs clk) div msPerDay"

definition calculateSessionDate :: "clock \<Rightarrow> nat \<Rightarrow> string \<Rightarrow> int" where
  "calculateSessionDate clk weekNumber dayName =
     (let dayIndex = indexOf weekdays (toLowerCase dayName);
          \<comment> \<open>\<^verbatim>\<open>targetDate.setDate(today.getDate() + (weekNumber - 1) * 7)\<close>, in local time\<close>
          targetLocal = nowMs clk + tzOffsetMs clk + (int weekNumber - 1) * 7 * msPerDay;
          currentDay = weekdayOfDay (targetLocal div msPerDay);
          daysToAdd = js_rem (dayIndex - currentDay + 7) 7;
          targetLocal' = targetLocal + daysToAdd * msPerDay
      in \<comment> \<open>\<^verbatim>\<open>targetDate.toISOString().split('T')[0]\<close>: the UTC date of that instant\<close>
         (targetLocal' - tzOffsetMs clk) div msPerDay)"

section \<open>Regular expressions\<close>

text \<open>
  A matcher tries one regular expression at the start of a string and returns the length
  of the match. The combinators never backtrack. This is exact for every expression
  below: a greedy run of one character class (\<^verbatim>\<open>\s*\<close>, \<^verbatim>\<open>\d+\<close>) is always followed by
  something that cannot start with a character of that class, and an alternation is
  never followed by anything, so JavaScript's backtracking finds no other match.
\<close>

type_synonym matcher = "string \<Rightarrow> nat option"

definition m_lit :: "string \<Rightarrow> matcher" where
  \<comment> \<open>a literal under the \<^verbatim>\<open>i\<close> flag; the pattern is written in lower case\<close>
  "m_lit pat s = (if toLowerCase (take (length pat) s) = pat then Some (length pat) else None)"

definition m_many :: "(char \<Rightarrow> bool) \<Rightarrow> matcher" where
  "m_many P s = Some (length (takeWhile P s))"

definition m_many1 :: "(char \<Rightarrow> bool) \<Rightarrow> matcher" where
  "m_many1 P s = (if s \<noteq> [] \<and> P (hd s) then Some (length (takeWhile P s)) else None)"

definition m_then :: "matcher \<Rightarrow> matcher \<Rightarrow> matcher" where
  "m_then a b s =
     (case a s of None \<Rightarrow> None
      | Some i \<Rightarrow> (case b (drop i s) of None \<Rightarrow> None | Some j \<Rightarrow> Some (i + j)))"

definition m_opt :: "matcher \<Rightarrow> matcher" where
  "m_opt a s = (case a s of None \<Rightarrow> Some 0 | Some i \<Rightarrow> Some i)"

fun m_alts :: "matcher list \<Rightarrow> matcher" where
  "m_alts [] s = None"
| "m_alts (a # as) s = (case a s of Some i \<Rightarrow> Some i | None \<Rightarrow> m_alts as s)"

fun search :: "matcher \<Rightarrow> string \<Rightarrow> (nat \<times> nat) option" where
  \<comment> \<open>the leftmost match: its index and its length\<close>
  "search m [] = (case m [] of None \<Rightarrow> None | Some n \<Rightarrow> Some (0, n))"
| "search m (c # cs) =
     (case m (c # cs) of Some n \<Rightarrow> Some (0, n)
      | None \<Rightarrow> (case search m cs of None \<Rightarrow> None | Some (i, n) \<Rightarrow> Some (Suc i, n)))"

fun scan :: "matcher \<Rightarrow> nat \<Rightarrow> nat \<Rightarrow> string \<Rightarrow> (nat \<times> string) list" where
  \<comment> \<open>the \<^verbatim>\<open>while ((match = pattern.exec(s)) !== null)\<close> loop of a \<^verbatim>\<open>g\<close> expression:
      every match (index, text) from left to right, each search resuming where the
      previous match ended; \<open>skip\<close> counts the characters still covered by it\<close>
  "scan m pos skip [] = []"
| "scan m pos skip (c # cs) =
     (if 0 < skip then scan m (Suc pos) (skip - 1) cs
      else (case m (c # cs) of
              None \<Rightarrow> scan m (Suc pos) 0 cs
            | Some n \<Rightarrow> (pos, take n (c # cs)) # scan m (Suc pos) (n - 1) cs))"

definition matchAll :: "matcher \<Rightarrow> string \<Rightarrow> (nat \<times> string) list" where
  "matchAll m s = scan m 0 0 s"

definition matchFirst :: "matcher \<Rightarrow> string \<Rightarrow> string option" where
  \<comment> \<open>\<^verbatim>\<open>s.match(re)\<close>: the text of the leftmost match, \<open>None\<close> for \<^verbatim>\<open>null\<close>\<close>
  "matchFirst m s = (case search m s of None \<Rightarrow> None | Some (i, n) \<Rightarrow> Some (take n (drop i s)))"

definition weekdayPattern :: matcher where
  \<comment> \<open>\<^verbatim>\<open>/(monday|tuesday|wednesday|thursday|friday|saturday|sunday)/gi\<close>\<close>
  "weekdayPattern = m_alts (map m_lit [''monday'', ''tuesday'', ''wednesday'', ''thursday'',
                                      ''friday'', ''saturday'', ''sunday''])"

definition dayNumberPattern :: matcher where
  \<comment> \<open>\<^verbatim>\<open>/day\s*(\d+)/gi\<close>\<close>
  "dayNumberPattern = m_then (m_lit ''day'') (m_then (m_many is_space) (m_many1 is_digit))"

definition sessionNumberPattern :: matcher where
  \<comment> \<open>\<^verbatim>\<open>/(session\s*\d+)/gi\<close>\<close>
  "sessionNumberPattern = m_then (m_lit ''session'') (m_then (m_many is_space) (m_many1 is_digit))"

definition weekNumberPattern :: "nat \<Rightarrow> matcher" where
  \<comment> \<open>\<^verbatim>\<open>new RegExp(`week\\s*${weekNumber}`, 'gi')\<close>\<close>
  "weekNumberPattern n = m_then (m_lit ''week'') (m_then (m_many is_space) (m_lit (decimal n)))"

definition altWeekPattern :: matcher where
  \<comment> \<open>\<^verbatim>\<open>/Week\s+(\d+)/gi\<close>\<close>
  "altWeekPattern = m_then (m_lit ''week'') (m_then (m_many1 is_space) (m_many1 is_digit))"

definition durationPattern :: matcher where
  \<comment> \<open>\<^verbatim>\<open>/(\d+)\s*(minutes?|mins?|hours?|hrs?)/i\<close>\<close>
  "durationPattern =
     m_then (m_many1 is_digit) (m_then (m_many is_space)
       (m_alts [m_then (m_lit ''minute'') (m_opt (m_lit ''s'')),
                m_then (m_lit ''min'') (m_opt (m_lit ''s'')),
                m_then (m_lit ''hour'') (m_opt (m_lit ''s'')),
                m_then (m_lit ''hr'') (m_opt (m_lit ''s''))]))"

definition sportPattern :: matcher where
  \<comment> \<open>\<^verbatim>\<open>/(soccer|football|basketball|tennis|volleyball|swimming)/i\<close>\<close>
  "sportPattern = m_alts (map m_lit [''soccer'', ''football'', ''basketball'', ''tennis'',
                                    ''volleyball'', ''swimming''])"

definition agePattern :: matcher where
  \<comment> \<open>\<^verbatim>\<open>/(\d+[-?]\d+\s*years?|under\s*\d+|u\d+|\d+\s*years?)/i\<close>, where \<^verbatim>\<open>?\<close> stands for
      the en dash of the source: it is not an 8-bit character, so the class of the first
      alternative is the hyphen alone\<close>
  "agePattern =
     m_alts [m_then (m_many1 is_digit) (m_then (m_lit ''-'') (m_then (m_many1 is_digit)
               (m_then (m_many is_space) (m_then (m_lit ''year'') (m_opt (m_lit ''s'')))))),
             m_then (m_lit ''under'') (m_then (m_many is_space) (m_many1 is_digit)),
             m_then (m_lit ''u'') (m_many1 is_digit),
             m_then (m_many1 is_digit) (m_then (m_many is_space)
               (m_then (m_lit ''year'') (m_opt (m_lit ''s''))))]"

definition academyPattern :: "string \<Rightarrow> string option" where
  \<comment> \<open>\<^verbatim>\<open>/^([A-Z][A-Z\s]+ACADEMY|[A-Z][A-Z\s]+CLUB)/i\<close> on one line, returning group 1.
      Here the greedy run \<^verbatim>\<open>[A-Z\s]+\<close> does give characters back: the match is the
      longest prefix of letters and white space that starts with a letter, ends in the
      keyword and has at least one character between; ACADEMY is tried before CLUB.\<close>
  "academyPattern line =
     (let run = takeWhile (\<lambda>c. is_letter c \<or> is_space c) line;
          ending = (\<lambda>kw p. 2 + length kw \<le> length p \<and> suffix kw (toLowerCase p))
      in if line = [] \<or> \<not> is_letter (hd line) then None
         else (case find (ending ''academy'') (rev (prefixes run)) of
                 Some p \<Rightarrow> Some p
               | None \<Rightarrow> find (ending ''club'') (rev (prefixes run))))"

section \<open>Data model\<close>

text \<open>
  The records keep the fields the properties below speak about. The identifiers (built
  from \<^verbatim>\<open>Date.now()\<close>), titles, descriptions, focus tags, location, type, participants
  and the remaining descriptive fields are left out; where the initialiser of such a field
  can raise, the raise is part of the model.
\<close>

record AcademyInfo =
  ai_academyName :: string
  ai_sport :: string
  ai_ageGroup :: string
  ai_program :: string
  ai_location :: string
  ai_difficulty :: string

record DailySession =
  ds_weekNumber :: nat
  ds_dayNumber :: nat
  ds_day :: string
  ds_date :: int
  ds_time :: string
  ds_duration :: nat
  ds_rawContent :: string

record WeekSession =
  ws_weekNumber :: nat
  ws_dailySessions :: "DailySession list"
  ws_totalDuration :: nat

record OrganizationLevel =
  ol_level :: "string option"

record WeekTitle =
  wt_number :: nat
  wt_title :: string
  wt_position :: nat

record WeekStructure =
  wk_totalWeeks :: nat
  wk_identifiedWeeks :: "nat list"
  wk_weekTitles :: "WeekTitle list"

record SessionDetail =
  sd_text :: string
  sd_type :: string

record SessionStructure =
  ss_hasStructuredSessions :: bool
  ss_totalSessions :: nat
  ss_sessionDetails :: "SessionDetail list"

record DurationAnalysis =
  da_averageDuration :: nat

text \<open>
  \<open>sa_organizationLevel = None\<close> is the malformed shape whose \<^verbatim>\<open>organizationLevel\<close> is
  \<^verbatim>\<open>undefined\<close>; \<open>ol_level = None\<close> is an \<^verbatim>\<open>undefined\<close> level. The other parts are
  present, as the analyzer's contract types them. A count of \<open>0\<close> is falsy in
  \<^verbatim>\<open>||\<close>, like a missing one.
\<close>

record StructureAnalysis =
  sa_organizationLevel :: "OrganizationLevel option"
  sa_weekStructure :: WeekStructure
  sa_sessionStructure :: SessionStructure
  sa_durationAnalysis :: DurationAnalysis
  sa_documentType :: string

record WeekSection =
  sec_weekNumber :: nat
  sec_title :: string
  sec_content :: string
  sec_startPosition :: nat
  sec_endPosition :: nat

record DayInfo =
  di_day :: string
  di_position :: nat
  di_fullMatch :: string

text \<open>
  Several helpers of the class are declared twice; the later declaration replaces the
  earlier one (\<^verbatim>\<open>extractWeekDescription\<close>, \<^verbatim>\<open>extractWeekFocus\<close>,
  \<^verbatim>\<open>extractSessionFocus\<close>, \<^verbatim>\<open>capitalizeFirst\<close>, \<^verbatim>\<open>isHeaderLine\<close>,
  \<^verbatim>\<open>extractActivitiesFromSection\<close>). The surviving declarations of the first three,
  and \<^verbatim>\<open>extractActivities\<close>, call array methods (\<^verbatim>\<open>filter\<close>, \<^verbatim>\<open>join\<close>,
  \<^verbatim>\<open>forEach\<close>) on their argument, while the structure-aware callers pass a string. The
  argument is therefore a value of either kind.
\<close>

datatype content = Text string | Lines "string list"

definition as_array :: "content \<Rightarrow> js_error + string list" where
  \<comment> \<open>calling an array method on the value: a string has none of them\<close>
  "as_array c = (case c of Text s \<Rightarrow> Inl TypeError | Lines ls \<Rightarrow> Inr ls)"

fun js_join :: "string \<Rightarrow> string list \<Rightarrow> string" where
  "js_join sep [] = []"
| "js_join sep [x] = x"
| "js_join sep (x # y # ys) = x @ sep @ js_join sep (y # ys)"

fun js_includes :: "string \<Rightarrow> string \<Rightarrow> bool" where
  "js_includes [] sub = (sub = [])"
| "js_includes (c # cs) sub = (prefix sub (c # cs) \<or> js_includes cs sub)"

definition js_slice :: "'a list \<Rightarrow> nat \<Rightarrow> nat \<Rightarrow> 'a list" where
  \<comment> \<open>\<^verbatim>\<open>xs.slice(a, b)\<close> for indices that are not negative\<close>
  "js_slice xs a b = take (b - a) (drop a xs)"

fun collect :: "('a \<Rightarrow> js_error + 'b) \<Rightarrow> 'a list \<Rightarrow> js_error + 'b list" where
  \<comment> \<open>a loop that builds one element per item and pushes it; the first raise ends it\<close>
  "collect f [] = Inr []"
| "collect f (x # xs) =
     (case f x of Inl e \<Rightarrow> Inl e
      | Inr y \<Rightarrow> (case collect f xs of Inl e \<Rightarrow> Inl e | Inr ys \<Rightarrow> Inr (y # ys)))"

definition totalDurationOf :: "DailySession list \<Rightarrow> nat" where
  \<comment> \<open>\<^verbatim>\<open>dailySessions.reduce((sum, s) => sum + s.duration, 0)\<close>\<close>
  "totalDurationOf dailySessions = foldl (\<lambda>sum s. sum + ds_duration s) 0 dailySessions"

section \<open>The Daily Session Builder\<close>

definition createBasicSession :: "clock \<Rightarrow> nat \<Rightarrow> nat \<Rightarrow> string \<Rightarrow> AcademyInfo \<Rightarrow> DailySession" where
  "createBasicSession clk weekNumber dayNumber dayName academyInfo =
     \<lparr>ds_weekNumber = weekNumber,
      ds_dayNumber = dayNumber,
      ds_day = dayName,
      ds_date = calculateSessionDate clk weekNumber dayName,
      ds_time = ''08:00'',
      ds_duration = 90,
      ds_rawContent = ''Week '' @ decimal weekNumber @ '' '' @ dayName @ '' training''\<rparr>"

definition generateDefaultWeekSessions :: "clock \<Rightarrow> nat \<Rightarrow> AcademyInfo \<Rightarrow> DailySession list" where
  "generateDefaultWeekSessions clk weekNumber academyInfo =
     map (\<lambda>(index, day). createBasicSession clk weekNumber (index + 1) day academyInfo)
       (enumerate 0 [''monday'', ''wednesday'', ''friday''])"

definition mapSessionToDay :: "nat \<Rightarrow> string" where
  \<comment> \<open>\<^verbatim>\<open>dayMap[dayNumber - 1] || 'monday'\<close>\<close>
  "mapSessionToDay dayNumber =
     (let dayMap = [''monday'', ''wednesday'', ''friday'', ''tuesday'', ''thursday'',
                    ''saturday'', ''sunday'']
      in if 1 \<le> dayNumber \<and> dayNumber \<le> length dayMap then dayMap ! (dayNumber - 1)
         else ''monday'')"

definition createSessionFromDetail ::
  "clock \<Rightarrow> SessionDetail \<Rightarrow> nat \<Rightarrow> nat \<Rightarrow> AcademyInfo \<Rightarrow> DailySession" where
  "createSessionFromDetail clk sessionDetail weekNumber dayNumber academyInfo =
     \<lparr>ds_weekNumber = weekNumber,
      ds_dayNumber = dayNumber,
      ds_day = mapSessionToDay dayNumber,
      ds_date = calculateSessionDate clk weekNumber (mapSessionToDay dayNumber),
      ds_time = ''08:00'',
      ds_duration = 90,
      ds_rawContent = sd_text sessionDetail\<rparr>"

definition normalizeDayName :: "string \<Rightarrow> string" where
  \<comment> \<open>\<^verbatim>\<open>dayMap[lower] || lower\<close> on the own keys of \<^verbatim>\<open>dayMap\<close>\<close>
  "normalizeDayName dayText =
     (let lower = toLowerCase dayText
      in case map_of [(''mon'', ''monday''), (''tue'', ''tuesday''), (''wed'', ''wednesday''),
                      (''thu'', ''thursday''), (''fri'', ''friday''), (''sat'', ''saturday''),
                      (''sun'', ''sunday'')] lower of
           Some d \<Rightarrow> d
         | None \<Rightarrow> lower)"

definition extractSessionDuration :: "string \<Rightarrow> DayInfo \<Rightarrow> DurationAnalysis \<Rightarrow> nat" where
  "extractSessionDuration content dayInfo durationAnalysis =
     (let nearbyText = substring content (di_position dayInfo - 100)
                         (min (length content) (di_position dayInfo + 200))
      in case matchFirst durationPattern nearbyText of
           Some m \<Rightarrow>
             (let value = parseInt (takeWhile is_digit m);
                  unit = toLowerCase (dropWhile is_space (dropWhile is_digit m))
              in if js_includes unit ''hour'' then value * 60 else value)
         | None \<Rightarrow>
             \<comment> \<open>\<^verbatim>\<open>durationAnalysis.averageDuration || 90\<close>\<close>
             (if da_averageDuration durationAnalysis = 0 then 90
              else da_averageDuration durationAnalysis))"

definition digits12 :: matcher where
  \<comment> \<open>\<^verbatim>\<open>\d{1,2}\<close>\<close>
  "digits12 s = (let k = min 2 (length (takeWhile is_digit s)) in if k = 0 then None else Some k)"

definition digits2 :: matcher where
  \<comment> \<open>\<^verbatim>\<open>\d{2}\<close>\<close>
  "digits2 s = (if length (takeWhile is_digit (take 2 s)) = 2 then Some 2 else None)"

definition timePattern :: matcher where
  \<comment> \<open>\<^verbatim>\<open>/(\d{1,2}):(\d{2})|(\d{1,2})\s*(am|pm)/i\<close>\<close>
  "timePattern =
     m_alts [m_then digits12 (m_then (m_lit '':'') digits2),
             m_then digits12 (m_then (m_many is_space) (m_alts [m_lit ''am'', m_lit ''pm'']))]"

definition padStart2 :: "string \<Rightarrow> string" where
  \<comment> \<open>\<^verbatim>\<open>s.padStart(2, '0')\<close>\<close>
  "padStart2 s = replicate (2 - length s) (CHR ''0'') @ s"

definition extractSessionTime :: "string \<Rightarrow> DayInfo \<Rightarrow> string option" where
  "extractSessionTime content dayInfo =
     (let nearbyText = substring content (di_position dayInfo - 50)
                         (min (length content) (di_position dayInfo + 100))
      in case matchFirst timePattern nearbyText of
           None \<Rightarrow> None
         | Some m \<Rightarrow>
             (if CHR '':'' \<in> set m
              then Some (padStart2 (takeWhile is_digit m) @ '':'' @ drop (length m - 2) m)
              else (let hour = parseInt (takeWhile is_digit m);
                        meridiem = toLowerCase (drop (length m - 2) m);
                        hour' = (if meridiem = ''pm'' \<and> hour \<noteq> 12 then hour + 12
                                 else if meridiem = ''am'' \<and> hour = 12 then 0
                                 else hour)
                    in Some (padStart2 (decimal hour') @ '':00''))))"

definition extractWeekFocus :: "content \<Rightarrow> js_error + string list" where
  \<comment> \<open>the declaration at line 1467: \<^verbatim>\<open>content.join(' ').toLowerCase()\<close>\<close>
  "extractWeekFocus c =
     (case as_array c of
        Inl e \<Rightarrow> Inl e
      | Inr ls \<Rightarrow>
          (let text = toLowerCase (js_join '' '' ls)
           in Inr (take 3 (filter (\<lambda>keyword. js_includes text keyword)
                 [''shooting'', ''passing'', ''dribbling'', ''defending'', ''tactics'',
                  ''fitness'']))))"

definition extractSessionFocus :: "content \<Rightarrow> js_error + string list" where
  \<comment> \<open>the declaration at line 1481\<close>
  "extractSessionFocus c = extractWeekFocus c"

definition extractWeekDescription :: "content \<Rightarrow> js_error + unit" where
  \<comment> \<open>the declaration at line 1457 starts with \<^verbatim>\<open>content.filter(...)\<close>; the text it builds
      from an array is not part of the model\<close>
  "extractWeekDescription c = (case as_array c of Inl e \<Rightarrow> Inl e | Inr ls \<Rightarrow> Inr ())"

definition createStructuredDailySession ::
  "clock \<Rightarrow> DayInfo \<Rightarrow> nat \<Rightarrow> nat \<Rightarrow> AcademyInfo \<Rightarrow> string \<Rightarrow> DurationAnalysis
     \<Rightarrow> js_error + DailySession" where
  "createStructuredDailySession clk dayInfo weekNumber dayIndex academyInfo content durationAnalysis =
     (let dayName = normalizeDayName (di_day dayInfo);
          sessionDate = calculateSessionDate clk weekNumber dayName;
          sessionDuration = extractSessionDuration content dayInfo durationAnalysis
      in \<comment> \<open>\<^verbatim>\<open>focus: this.extractSessionFocus(content, dayInfo)\<close> with the string \<^verbatim>\<open>content\<close>\<close>
         case extractSessionFocus (Text content) of
           Inl e \<Rightarrow> Inl e
         | Inr focus \<Rightarrow>
             Inr \<lparr>ds_weekNumber = weekNumber,
                  ds_dayNumber = dayIndex,
                  ds_day = dayName,
                  ds_date = sessionDate,
                  ds_time = (case extractSessionTime content dayInfo of
                               None \<Rightarrow> ''08:00'' | Some t \<Rightarrow> t),
                  ds_duration = sessionDuration,
                  ds_rawContent = content\<rparr>)"

definition createGeneralWeekSession ::
  "clock \<Rightarrow> content \<Rightarrow> nat \<Rightarrow> AcademyInfo \<Rightarrow> js_error + DailySession" where
  \<comment> \<open>the second parameter is \<^verbatim>\<open>week.content\<close>, the third is a 0-based \<^verbatim>\<open>weekIndex\<close>;
      \<^verbatim>\<open>activities: this.extractActivities(week.content)\<close> runs \<^verbatim>\<open>content.forEach\<close>,
      and \<^verbatim>\<open>rawContent\<close> is \<^verbatim>\<open>week.content.join('\n')\<close>\<close>
  "createGeneralWeekSession clk weekContent weekIndex academyInfo =
     (case as_array weekContent of
        Inl e \<Rightarrow> Inl e
      | Inr ls \<Rightarrow>
          Inr \<lparr>ds_weekNumber = weekIndex + 1,
               ds_dayNumber = 1,
               ds_day = ''week_plan'',
               ds_date = calculateSessionDate clk (weekIndex + 1) ''monday'',
               ds_time = ''08:00'',
               ds_duration = 120,
               ds_rawContent = js_join ''\<newline>'' ls\<rparr>)"

definition findDays :: "string \<Rightarrow> DayInfo list" where
  \<comment> \<open>the three \<^verbatim>\<open>exec\<close> loops of \<^verbatim>\<open>extractDailySessionsFromWeekSection\<close>, one pattern after
      the other; \<^verbatim>\<open>day: match[1] || match[0]\<close> is the weekday name, the digits of
      \<^verbatim>\<open>day N\<close>, or the whole \<^verbatim>\<open>session N\<close>\<close>
  "findDays content =
     map (\<lambda>(i, m). \<lparr>di_day = m, di_position = i, di_fullMatch = m\<rparr>)
       (matchAll weekdayPattern content)
     @ map (\<lambda>(i, m). \<lparr>di_day = dropWhile is_space (drop 3 m), di_position = i, di_fullMatch = m\<rparr>)
       (matchAll dayNumberPattern content)
     @ map (\<lambda>(i, m). \<lparr>di_day = m, di_position = i, di_fullMatch = m\<rparr>)
       (matchAll sessionNumberPattern content)"

definition extractDailySessionsFromWeekSection ::
  "clock \<Rightarrow> WeekSection \<Rightarrow> nat \<Rightarrow> AcademyInfo \<Rightarrow> DurationAnalysis \<Rightarrow> js_error + DailySession list" where
  "extractDailySessionsFromWeekSection clk weekSection weekNumber academyInfo durationAnalysis =
     (let content = sec_content weekSection;
          foundDays = findDays content
      in case collect (\<lambda>(index, dayInfo).
                 createStructuredDailySession clk dayInfo weekNumber (index + 1) academyInfo
                   content durationAnalysis) (enumerate 0 foundDays) of
           Inl e \<Rightarrow> Inl e
         | Inr dailySessions \<Rightarrow>
             (if length dailySessions = 0
              then (case createGeneralWeekSession clk (Text (sec_content weekSection)) weekNumber
                           academyInfo of
                      Inl e \<Rightarrow> Inl e
                    | Inr generalSession \<Rightarrow> Inr (dailySessions @ [generalSession]))
              else Inr dailySessions))"

section \<open>The extraction strategies\<close>

subsection \<open>Strategy D: basic structure and unstructured defaults\<close>

definition extractFromUnstructuredDocument :: "clock \<Rightarrow> AcademyInfo \<Rightarrow> WeekSession list" where
  \<comment> \<open>the loop \<^verbatim>\<open>for (weekNum = 1; weekNum <= 4; weekNum++)\<close>; \<^verbatim>\<open>totalDuration\<close> is the
      literal \<^verbatim>\<open>270\<close>\<close>
  "extractFromUnstructuredDocument clk academyInfo =
     map (\<lambda>weekNum.
        \<lparr>ws_weekNumber = weekNum,
         ws_dailySessions =
           [createBasicSession clk weekNum 1 ''monday'' academyInfo,
            createBasicSession clk weekNum 2 ''wednesday'' academyInfo,
            createBasicSession clk weekNum 3 ''friday'' academyInfo],
         ws_totalDuration = 270\<rparr>) [1 ..< 4 + 1]"

definition extractFromBasicStructuredDocument ::
  "clock \<Rightarrow> StructureAnalysis \<Rightarrow> AcademyInfo \<Rightarrow> WeekSession list" where
  "extractFromBasicStructuredDocument clk structureAnalysis academyInfo =
     (let weekStructure = sa_weekStructure structureAnalysis;
          \<comment> \<open>\<^verbatim>\<open>weekStructure.totalWeeks || 8\<close>\<close>
          totalWeeks = (if wk_totalWeeks weekStructure = 0 then 8 else wk_totalWeeks weekStructure)
      in map (\<lambda>weekNum.
           (let dailySessions = generateDefaultWeekSessions clk weekNum academyInfo
            in \<lparr>ws_weekNumber = weekNum,
                ws_dailySessions = dailySessions,
                ws_totalDuration = totalDurationOf dailySessions\<rparr>)) [1 ..< totalWeeks + 1])"

subsection \<open>Strategy C: session grouping\<close>

definition extractWithSessionStructure ::
  "clock \<Rightarrow> StructureAnalysis \<Rightarrow> AcademyInfo \<Rightarrow> WeekSession list" where
  "extractWithSessionStructure clk structureAnalysis academyInfo =
     (let sessionStructure = sa_sessionStructure structureAnalysis;
          sessionsPerWeek = 3;
          totalSessions = ss_totalSessions sessionStructure;
          \<comment> \<open>\<^verbatim>\<open>Math.ceil(totalSessions / sessionsPerWeek)\<close>\<close>
          totalWeeks = (totalSessions + (sessionsPerWeek - 1)) div sessionsPerWeek
      in map (\<lambda>weekNum.
           (let startSessionIndex = (weekNum - 1) * sessionsPerWeek;
                endSessionIndex = min (startSessionIndex + sessionsPerWeek) totalSessions;
                weekSessions =
                  map (\<lambda>(index, sessionDetail).
                         createSessionFromDetail clk sessionDetail weekNum (index + 1) academyInfo)
                    (enumerate 0 (js_slice (ss_sessionDetails sessionStructure)
                                    startSessionIndex endSessionIndex))
            in \<lparr>ws_weekNumber = weekNum,
                ws_dailySessions = weekSessions,
                ws_totalDuration = totalDurationOf weekSessions\<rparr>)) [1 ..< totalWeeks + 1])"

subsection \<open>Strategy B: partial week structure\<close>

definition weekBlock :: "string \<Rightarrow> nat \<Rightarrow> string option" where
  \<comment> \<open>\<^verbatim>\<open>text.match(new RegExp(`week\\s*${n}[\\s\\S]*?(?=week\\s*${n + 1}|$)`, 'gi'))\<close>,
      element \<^verbatim>\<open>[0]\<close>: from the first \<^verbatim>\<open>week n\<close> up to the next \<^verbatim>\<open>week n+1\<close> or the
      end of the text; \<open>None\<close> for \<^verbatim>\<open>null\<close>\<close>
  "weekBlock text n =
     (case search (weekNumberPattern n) text of
        None \<Rightarrow> None
      | Some (i, l) \<Rightarrow>
          (let rest = drop (i + l) text;
               k = (case search (weekNumberPattern (n + 1)) rest of
                      None \<Rightarrow> length rest | Some (j, l') \<Rightarrow> j)
           in Some (take (l + k) (drop i text))))"

definition extractWeekFocusByNumber :: "string \<Rightarrow> nat \<Rightarrow> js_error + string list" where
  "extractWeekFocusByNumber text weekNumber =
     (case weekBlock text weekNumber of
        None \<Rightarrow> Inr [''general training'']
      | Some weekMatch \<Rightarrow> extractWeekFocus (Text weekMatch))"

definition extractSessionsForSpecificWeek ::
  "clock \<Rightarrow> string \<Rightarrow> nat \<Rightarrow> AcademyInfo \<Rightarrow> DailySession list" where
  "extractSessionsForSpecificWeek clk text weekNumber academyInfo =
     (case weekBlock text weekNumber of
        None \<Rightarrow> generateDefaultWeekSessions clk weekNumber academyInfo
      | Some weekContent \<Rightarrow>
          (let days = map (\<lambda>(i, m). toLowerCase m) (matchAll weekdayPattern weekContent)
           in if length days = 0 then generateDefaultWeekSessions clk weekNumber academyInfo
              else map (\<lambda>(index, day). createBasicSession clk weekNumber (index + 1) day academyInfo)
                     (enumerate 0 days)))"

definition partialWeekSession ::
  "clock \<Rightarrow> string \<Rightarrow> WeekStructure \<Rightarrow> AcademyInfo \<Rightarrow> nat \<Rightarrow> js_error + WeekSession" where
  \<comment> \<open>one turn of the loop of \<^verbatim>\<open>extractWithPartialWeekStructure\<close>\<close>
  "partialWeekSession clk text weekStructure academyInfo weekNum =
     (let hasExplicitWeek = (weekNum \<in> set (wk_identifiedWeeks weekStructure))
      in \<comment> \<open>\<^verbatim>\<open>focus: hasExplicitWeek ? this.extractWeekFocusByNumber(text, weekNum) : ...\<close>;
          the focus generated for a week the analyzer did not identify cannot raise and is
          not part of the model\<close>
         case (if hasExplicitWeek then extractWeekFocusByNumber text weekNum else Inr []) of
           Inl e \<Rightarrow> Inl e
         | Inr focus \<Rightarrow>
             (let dailySessions =
                    (if hasExplicitWeek
                     then extractSessionsForSpecificWeek clk text weekNum academyInfo
                     else generateDefaultWeekSessions clk weekNum academyInfo)
              in Inr \<lparr>ws_weekNumber = weekNum,
                      ws_dailySessions = dailySessions,
                      ws_totalDuration = totalDurationOf dailySessions\<rparr>))"

definition extractWithPartialWeekStructure ::
  "clock \<Rightarrow> string \<Rightarrow> StructureAnalysis \<Rightarrow> AcademyInfo \<Rightarrow> js_error + WeekSession list" where
  "extractWithPartialWeekStructure clk text structureAnalysis academyInfo =
     (let weekStructure = sa_weekStructure structureAnalysis;
          \<comment> \<open>\<^verbatim>\<open>weekStructure.totalWeeks || 12\<close>\<close>
          maxWeek = (if wk_totalWeeks weekStructure = 0 then 12 else wk_totalWeeks weekStructure)
      in collect (partialWeekSession clk text weekStructure academyInfo) [1 ..< maxWeek + 1])"

subsection \<open>Strategy A: highly structured\<close>

fun weekSectionsFrom :: "string \<Rightarrow> WeekTitle list \<Rightarrow> WeekSection list" where
  "weekSectionsFrom text [] = []"
| "weekSectionsFrom text (t # ts) =
     (let startPos = wt_position t;
          endPos = (case ts of [] \<Rightarrow> length text | t' # ts' \<Rightarrow> wt_position t')
      in \<lparr>sec_weekNumber = wt_number t,
          sec_title = wt_title t,
          sec_content = substring text startPos endPos,
          sec_startPosition = startPos,
          sec_endPosition = endPos\<rparr> # weekSectionsFrom text ts)"

definition splitTextByWeeks :: "string \<Rightarrow> WeekStructure \<Rightarrow> WeekSection list" where
  \<comment> \<open>\<^verbatim>\<open>weekTitles.sort((a, b) => a.position - b.position)\<close> is a stable sort on the position\<close>
  "splitTextByWeeks text weekStructure =
     weekSectionsFrom text (sort_key wt_position (wk_weekTitles weekStructure))"

definition weekNumberAt :: "nat list \<Rightarrow> nat \<Rightarrow> nat" where
  \<comment> \<open>\<^verbatim>\<open>weekStructure.identifiedWeeks[weekIndex] || (weekIndex + 1)\<close>\<close>
  "weekNumberAt identifiedWeeks weekIndex =
     (if weekIndex < length identifiedWeeks \<and> identifiedWeeks ! weekIndex \<noteq> 0
      then identifiedWeeks ! weekIndex else weekIndex + 1)"

definition highlyStructuredWeek ::
  "clock \<Rightarrow> StructureAnalysis \<Rightarrow> AcademyInfo \<Rightarrow> nat \<times> WeekSection \<Rightarrow> js_error + WeekSession" where
  \<comment> \<open>one turn of \<^verbatim>\<open>weekSections.forEach((weekSection, weekIndex) => ...)\<close>: the object
      literal evaluates \<^verbatim>\<open>description\<close> and \<^verbatim>\<open>focus\<close> before the daily sessions\<close>
  "highlyStructuredWeek clk structureAnalysis academyInfo item =
     (case item of (weekIndex, weekSection) \<Rightarrow>
        (let weekNumber = weekNumberAt (wk_identifiedWeeks (sa_weekStructure structureAnalysis)) weekIndex
         in case extractWeekDescription (Text (sec_content weekSection)) of
              Inl e \<Rightarrow> Inl e
            | Inr description \<Rightarrow>
                (case extractWeekFocus (Text (sec_content weekSection)) of
                   Inl e \<Rightarrow> Inl e
                 | Inr focus \<Rightarrow>
                     (case extractDailySessionsFromWeekSection clk weekSection weekNumber academyInfo
                             (sa_durationAnalysis structureAnalysis) of
                        Inl e \<Rightarrow> Inl e
                      | Inr dailySessions \<Rightarrow>
                          Inr \<lparr>ws_weekNumber = weekNumber,
                               ws_dailySessions = dailySessions,
                               ws_totalDuration = totalDurationOf dailySessions\<rparr>))))"

definition extractFromHighlyStructuredDocument ::
  "clock \<Rightarrow> string \<Rightarrow> StructureAnalysis \<Rightarrow> AcademyInfo \<Rightarrow> js_error + WeekSession list" where
  "extractFromHighlyStructuredDocument clk text structureAnalysis academyInfo =
     (let weekSections = splitTextByWeeks text (sa_weekStructure structureAnalysis)
      in collect (highlyStructuredWeek clk structureAnalysis academyInfo) (enumerate 0 weekSections))"



subsection \<open>The Strategy Dispatcher\<close>

definition extractFromModeratelyStructuredDocument ::
  "clock \<Rightarrow> string \<Rightarrow> StructureAnalysis \<Rightarrow> AcademyInfo \<Rightarrow> js_error + WeekSession list" where
  "extractFromModeratelyStructuredDocument clk text structureAnalysis academyInfo =
     (if wk_totalWeeks (sa_weekStructure structureAnalysis) > 0
      then extractWithPartialWeekStructure clk text structureAnalysis academyInfo
      else if ss_hasStructuredSessions (sa_sessionStructure structureAnalysis)
      then Inr (extractWithSessionStructure clk structureAnalysis academyInfo)
      else Inr (extractFromBasicStructuredDocument clk structureAnalysis academyInfo))"

definition extractSessionsWithStructureAwareness ::
  "clock \<Rightarrow> string \<Rightarrow> StructureAnalysis \<Rightarrow> AcademyInfo \<Rightarrow> js_error + WeekSession list" where
  \<comment> \<open>\<^verbatim>\<open>switch (organizationLevel.level)\<close>; reading \<^verbatim>\<open>.level\<close> of an \<^verbatim>\<open>undefined\<close>
      \<^verbatim>\<open>organizationLevel\<close> raises\<close>
  "extractSessionsWithStructureAwareness clk text structureAnalysis academyInfo =
     (case sa_organizationLevel structureAnalysis of
        None \<Rightarrow> Inl TypeError
      | Some organizationLevel \<Rightarrow>
          (if ol_level organizationLevel = Some ''highly_structured''
           then extractFromHighlyStructuredDocument clk text structureAnalysis academyInfo
           else if ol_level organizationLevel = Some ''moderately_structured''
           then extractFromModeratelyStructuredDocument clk text structureAnalysis academyInfo
           else if ol_level organizationLevel = Some ''basic_structure''
           then Inr (extractFromBasicStructuredDocument clk structureAnalysis academyInfo)
           else Inr (extractFromUnstructuredDocument clk academyInfo)))"

text \<open>
  The same control flow with the called strategy as a value: which of the five strategy
  functions the dispatcher (and \<^verbatim>\<open>extractFromModeratelyStructuredDocument\<close> below it)
  reaches.
\<close>

datatype strategy =
  FromHighlyStructured | WithPartialWeekStructure | WithSessionStructure
  | FromBasicStructured | FromUnstructured

definition selectedStrategy :: "StructureAnalysis \<Rightarrow> js_error + strategy" where
  "selectedStrategy structureAnalysis =
     (case sa_organizationLevel structureAnalysis of
        None \<Rightarrow> Inl TypeError
      | Some organizationLevel \<Rightarrow>
          (if ol_level organizationLevel = Some ''highly_structured'' then Inr FromHighlyStructured
           else if ol_level organizationLevel = Some ''moderately_structured''
           then (if wk_totalWeeks (sa_weekStructure structureAnalysis) > 0
                 then Inr WithPartialWeekStructure
                 else if ss_hasStructuredSessions (sa_sessionStructure structureAnalysis)
                 then Inr WithSessionStructure
                 else Inr FromBasicStructured)
           else if ol_level organizationLevel = Some ''basic_structure'' then Inr FromBasicStructured
           else Inr FromUnstructured))"

fun runStrategy ::
  "strategy \<Rightarrow> clock \<Rightarrow> string \<Rightarrow> StructureAnalysis \<Rightarrow> AcademyInfo \<Rightarrow> js_error + WeekSession list" where
  "runStrategy FromHighlyStructured clk text sa ai = extractFromHighlyStructuredDocument clk text sa ai"
| "runStrategy WithPartialWeekStructure clk text sa ai = extractWithPartialWeekStructure clk text sa ai"
| "runStrategy WithSessionStructure clk text sa ai = Inr (extractWithSessionStructure clk sa ai)"
| "runStrategy FromBasicStructured clk text sa ai = Inr (extractFromBasicStructuredDocument clk sa ai)"
| "runStrategy FromUnstructured clk text sa ai = Inr (extractFromUnstructuredDocument clk ai)"

subsection \<open>The alternative week extraction\<close>

definition altWeekSession ::
  "clock \<Rightarrow> string \<Rightarrow> AcademyInfo \<Rightarrow> (nat \<times> nat) \<times> nat \<Rightarrow> js_error + WeekSession" where
  \<comment> \<open>one turn of \<^verbatim>\<open>matches.forEach((weekMatch, index) => ...)\<close> in
      \<^verbatim>\<open>attemptAlternativeWeekExtraction\<close>; every helper receives the array \<^verbatim>\<open>[weekText]\<close>\<close>
  "altWeekSession clk text academyInfo item =
     (case item of ((weekNumber, matchIndex), nextWeekIndex) \<Rightarrow>
        (let weekText = substring text matchIndex nextWeekIndex
         in case extractWeekDescription (Lines [weekText]) of
              Inl e \<Rightarrow> Inl e
            | Inr description \<Rightarrow>
                (case extractWeekFocus (Lines [weekText]) of
                   Inl e \<Rightarrow> Inl e
                 | Inr focus \<Rightarrow>
                     (case as_array (Lines [weekText]) of
                        Inl e \<Rightarrow> Inl e
                      | Inr activityLines \<Rightarrow>
                          (let generalSession =
                                 \<lparr>ds_weekNumber = weekNumber,
                                  ds_dayNumber = 1,
                                  ds_day = ''week_plan'',
                                  ds_date = calculateSessionDate clk weekNumber ''monday'',
                                  ds_time = ''08:00'',
                                  ds_duration = 120,
                                  ds_rawContent = weekText\<rparr>
                           in Inr \<lparr>ws_weekNumber = weekNumber,
                                   ws_dailySessions = [generalSession],
                                   ws_totalDuration = 120\<rparr>)))))"

definition attemptAlternativeWeekExtraction ::
  "clock \<Rightarrow> string \<Rightarrow> AcademyInfo \<Rightarrow> js_error + WeekSession list" where
  "attemptAlternativeWeekExtraction clk text academyInfo =
     (let matches = map (\<lambda>(i, m). (parseInt (dropWhile is_space (drop 4 m)), i))
                      (matchAll altWeekPattern text);
          \<comment> \<open>\<^verbatim>\<open>index + 1 < matches.length ? matches[index + 1].index : text.length\<close>\<close>
          nextWeekIndexes = map snd (tl matches) @ [length text]
      in collect (altWeekSession clk text academyInfo) (zip matches nextWeekIndexes))"

section \<open>The Academy/Context Extractor\<close>

text \<open>
  A field of the plan metadata is \<open>None\<close> when it is \<^verbatim>\<open>undefined\<close>; in a chain
  \<^verbatim>\<open>a || b || c\<close> the empty string is falsy as well.
\<close>

record TrainingPlan =
  tp_title :: "string option"
  tp_category :: "string option"
  tp_difficulty :: "string option"
  tp_academyName :: "string option"

fun js_or :: "string option list \<Rightarrow> string \<Rightarrow> string" where
  \<comment> \<open>\<^verbatim>\<open>v1 || v2 || ... || dflt\<close>\<close>
  "js_or [] dflt = dflt"
| "js_or (None # vs) dflt = js_or vs dflt"
| "js_or (Some s # vs) dflt = (if s = [] then js_or vs dflt else s)"

definition js_split :: "char \<Rightarrow> string \<Rightarrow> string list" where
  \<comment> \<open>\<^verbatim>\<open>s.split(sep)\<close> for a one-character separator\<close>
  "js_split sep s = foldr (\<lambda>c acc. if c = sep then [] # acc else (c # hd acc) # tl acc) s [[]]"

definition js_trim :: "string \<Rightarrow> string" where
  "js_trim s = rev (dropWhile is_space (rev (dropWhile is_space s)))"

fun firstSome :: "('a \<Rightarrow> 'b option) \<Rightarrow> 'a list \<Rightarrow> 'b option" where
  \<comment> \<open>a \<^verbatim>\<open>for ... of\<close> loop that stops at the first match\<close>
  "firstSome f [] = None"
| "firstSome f (x # xs) = (case f x of Some y \<Rightarrow> Some y | None \<Rightarrow> firstSome f xs)"

definition headerLines :: "string \<Rightarrow> string list" where
  \<comment> \<open>\<^verbatim>\<open>text.split('\n').slice(0, 20)\<close>\<close>
  "headerLines text = take 20 (js_split (CHR 0x0A) text)"

definition extractAcademyInfo ::
  "string \<Rightarrow> TrainingPlan \<Rightarrow> StructureAnalysis option \<Rightarrow> AcademyInfo" where
  "extractAcademyInfo text trainingPlan structureAnalysis =
     (let lines = headerLines text;
          academyName = (case firstSome academyPattern lines of
                           None \<Rightarrow> [] | Some m \<Rightarrow> js_trim m);
          program0 = (case structureAnalysis of
                        None \<Rightarrow> []
                      | Some sa \<Rightarrow>
                          (if sa_documentType sa = ''curriculum'' then ''Training Curriculum''
                           else if sa_documentType sa = ''weekly_schedule''
                           then ''Weekly Training Schedule'' else []));
          sport = (case matchFirst sportPattern text of None \<Rightarrow> [] | Some m \<Rightarrow> toLowerCase m);
          ageGroup = (case matchFirst agePattern text of None \<Rightarrow> [] | Some m \<Rightarrow> m);
          program = (if program0 = []
                     then (case filter (\<lambda>line. js_includes line ''COACHING'' \<or>
                                         js_includes line ''PLAN'' \<or>
                                         js_includes line ''PROGRAM'') lines of
                             [] \<Rightarrow> [] | l # ls \<Rightarrow> js_trim l)
                     else program0)
      in \<lparr>ai_academyName = js_or [Some academyName, tp_academyName trainingPlan,
                                   tp_title trainingPlan] ''Training Academy'',
          ai_sport = js_or [Some sport, tp_category trainingPlan] ''soccer'',
          ai_ageGroup = js_or [Some ageGroup] ''Youth'',
          ai_program = js_or [Some program, tp_title trainingPlan] ''Training Program'',
          ai_location = ''Training Facility'',
          ai_difficulty = js_or [tp_difficulty trainingPlan] ''intermediate''\<rparr>)"

text \<open>
  The same function with its possible raises written out. Reading a property or calling
  a method on \<^verbatim>\<open>undefined\<close> raises; \<^verbatim>\<open>academyMatch[1].trim()\<close>,
  \<^verbatim>\<open>sportMatch[1].toLowerCase()\<close> and \<^verbatim>\<open>programLines[0].trim()\<close> are the calls whose
  receiver is an element of an array. A match result is \<^verbatim>\<open>null\<close> or the array of the
  whole match and group 1; in the three expressions group 1 encloses the whole pattern.
\<close>

definition receiver :: "'a option \<Rightarrow> js_error + 'a" where
  \<comment> \<open>a value used as the receiver of a method call; \<open>None\<close> is \<^verbatim>\<open>undefined\<close>\<close>
  "receiver v = (case v of None \<Rightarrow> Inl TypeError | Some x \<Rightarrow> Inr x)"

definition element :: "'a option list \<Rightarrow> nat \<Rightarrow> 'a option" where
  \<comment> \<open>\<^verbatim>\<open>xs[i]\<close>: \<^verbatim>\<open>undefined\<close> out of range\<close>
  "element xs i = (if i < length xs then xs ! i else None)"

definition matchArray :: "string option \<Rightarrow> string option list option" where
  \<comment> \<open>from the text of a match to the array \<^verbatim>\<open>[match, group 1]\<close>\<close>
  "matchArray r = (case r of None \<Rightarrow> None | Some m \<Rightarrow> Some [Some m, Some m])"

fun academyLoop :: "string list \<Rightarrow> js_error + string" where
  \<comment> \<open>\<^verbatim>\<open>for (const line of lines) { ...; if (academyMatch) { academyName = ...; break; } }\<close>\<close>
  "academyLoop [] = Inr []"
| "academyLoop (line # ls) =
     (case matchArray (academyPattern line) of
        None \<Rightarrow> academyLoop ls
      | Some academyMatch \<Rightarrow>
          (case receiver (element academyMatch 1) of
             Inl e \<Rightarrow> Inl e | Inr g \<Rightarrow> Inr (js_trim g)))"

definition extractAcademyInfoChecked ::
  "string \<Rightarrow> TrainingPlan \<Rightarrow> StructureAnalysis option \<Rightarrow> js_error + AcademyInfo" where
  "extractAcademyInfoChecked text trainingPlan structureAnalysis =
     (let lines = headerLines text
      in case academyLoop lines of
           Inl e \<Rightarrow> Inl e
         | Inr academyName \<Rightarrow>
      (let program0 = (case structureAnalysis of
                         None \<Rightarrow> []
                       | Some sa \<Rightarrow>
                           (if sa_documentType sa = ''curriculum'' then ''Training Curriculum''
                            else if sa_documentType sa = ''weekly_schedule''
                            then ''Weekly Training Schedule'' else []))
       in case (case matchArray (matchFirst sportPattern text) of
                  None \<Rightarrow> Inr []
                | Some sportMatch \<Rightarrow>
                    (case receiver (element sportMatch 1) of
                       Inl e \<Rightarrow> Inl e | Inr g \<Rightarrow> Inr (toLowerCase g))) of
            Inl e \<Rightarrow> Inl e
          | Inr sport \<Rightarrow>
      (let ageGroup = (case matchArray (matchFirst agePattern text) of
                         None \<Rightarrow> []
                       | Some ageMatch \<Rightarrow>
                           (case element ageMatch 1 of None \<Rightarrow> [] | Some g \<Rightarrow> g));
           programLines = filter (\<lambda>line. js_includes line ''COACHING'' \<or>
                                     js_includes line ''PLAN'' \<or>
                                     js_includes line ''PROGRAM'') lines
       in case (if program0 = []
                then (if length programLines > 0
                      then (case receiver (element (map Some programLines) 0) of
                              Inl e \<Rightarrow> Inl e | Inr l \<Rightarrow> Inr (js_trim l))
                      else Inr [])
                else Inr program0) of
            Inl e \<Rightarrow> Inl e
          | Inr program \<Rightarrow>
              Inr \<lparr>ai_academyName = js_or [Some academyName, tp_academyName trainingPlan,
                                           tp_title trainingPlan] ''Training Academy'',
                   ai_sport = js_or [Some sport, tp_category trainingPlan] ''soccer'',
                   ai_ageGroup = js_or [Some ageGroup] ''Youth'',
                   ai_program = js_or [Some program, tp_title trainingPlan] ''Training Program'',
                   ai_location = ''Training Facility'',
                   ai_difficulty = js_or [tp_difficulty trainingPlan] ''intermediate''\<rparr>)))"

section \<open>The pipeline entry point\<close>

text \<open>
  The external collaborators are arguments: the outcome of
  \<^verbatim>\<open>DocumentProcessor.extractDocumentText\<close> (the text, or the error it raised), the
  structure analyzer as a function of the text, and
  \<^verbatim>\<open>AIService.enhanceExtractedSessions\<close> as a function of the sessions. The schedule
  optimisation sits in a \<^verbatim>\<open>try\<close> of its own and only fills \<^verbatim>\<open>optimizedSchedule\<close>, which is
  left out together with the time stamp, the two source identifiers and the flags.
\<close>

record ExtractionResult =
  er_academyInfo :: AcademyInfo
  er_sessions :: "WeekSession list"
  er_totalWeeks :: nat
  er_totalSessions :: nat

definition extractionSteps ::
  "clock \<Rightarrow> js_error + string \<Rightarrow> (string \<Rightarrow> js_error + StructureAnalysis)
     \<Rightarrow> (WeekSession list \<Rightarrow> js_error + WeekSession list) \<Rightarrow> TrainingPlan
     \<Rightarrow> js_error + ExtractionResult" where
  \<comment> \<open>the body of the outer \<^verbatim>\<open>try\<close> of \<^verbatim>\<open>extractSessionsFromDocument\<close>\<close>
  "extractionSteps clk documentText analyzeDocumentStructure enhanceExtractedSessions trainingPlan =
     (case documentText of
        Inl e \<Rightarrow> Inl e
      | Inr text \<Rightarrow>
          (case analyzeDocumentStructure text of
             Inl e \<Rightarrow> Inl e
           | Inr structureAnalysis \<Rightarrow>
               (let academyInfo = extractAcademyInfo text trainingPlan (Some structureAnalysis)
                in case extractSessionsWithStructureAwareness clk text structureAnalysis academyInfo of
                     Inl e \<Rightarrow> Inl e
                   | Inr sessions \<Rightarrow>
                       (let enhancedSessions =
                              (case enhanceExtractedSessions sessions of
                                 Inl e \<Rightarrow> sessions | Inr enhanced \<Rightarrow> enhanced)
                        in Inr \<lparr>er_academyInfo = academyInfo,
                                er_sessions = enhancedSessions,
                                er_totalWeeks = length enhancedSessions,
                                er_totalSessions =
                                  foldl (\<lambda>sum week. sum + length (ws_dailySessions week)) 0
                                    enhancedSessions\<rparr>))))"

definition extractSessionsFromDocument ::
  "clock \<Rightarrow> js_error + string \<Rightarrow> (string \<Rightarrow> js_error + StructureAnalysis)
     \<Rightarrow> (WeekSession list \<Rightarrow> js_error + WeekSession list) \<Rightarrow> TrainingPlan
     \<Rightarrow> js_error + ExtractionResult" where
  \<comment> \<open>\<^verbatim>\<open>catch (error) { throw PlatformUtils.handlePlatformError(error, '...') }\<close>\<close>
  "extractSessionsFromDocument clk documentText analyzeDocumentStructure enhanceExtractedSessions
       trainingPlan =
     (case extractionSteps clk documentText analyzeDocumentStructure enhanceExtractedSessions
             trainingPlan of
        Inl error \<Rightarrow> Inl (PlatformError error ''Enhanced Session Extraction'')
      | Inr result \<Rightarrow> Inr result)"

section \<open>Conversion to upcoming sessions\<close>

record UpcomingSession =
  us_time :: string
  us_duration :: nat
  us_date :: int
  us_weekNumber :: nat
  us_dayNumber :: nat
  us_rawContent :: string

definition upcomingSession :: "clock \<Rightarrow> WeekSession \<Rightarrow> DailySession \<Rightarrow> UpcomingSession" where
  \<comment> \<open>the object built in the inner \<^verbatim>\<open>forEach\<close>: \<^verbatim>\<open>date\<close> and \<^verbatim>\<open>weekNumber\<close> come from the
      week, the rest from the session\<close>
  "upcomingSession clk week session =
     \<lparr>us_time = ds_time session,
      us_duration = ds_duration session,
      us_date = calculateSessionDate clk (ws_weekNumber week) (ds_day session),
      us_weekNumber = ws_weekNumber week,
      us_dayNumber = ds_dayNumber session,
      us_rawContent = ds_rawContent session\<rparr>"

definition convertToUpcomingSessions :: "clock \<Rightarrow> ExtractionResult \<Rightarrow> UpcomingSession list" where
  \<comment> \<open>\<^verbatim>\<open>upcomingSessions.sort((a, b) => new Date(a.date) - new Date(b.date))\<close> is a stable
      sort on the date\<close>
  "convertToUpcomingSessions clk extractedData =
     sort_key us_date
       (concat (map (\<lambda>week. map (upcomingSession clk week) (ws_dailySessions week))
                  (er_sessions extractedData)))"

section \<open>Example inputs\<close>

definition exampleClock :: clock where
  \<comment> \<open>2024-01-01T01:00Z, a Monday (day 19723), on a device whose local time is UTC\<close>
  "exampleClock = \<lparr>nowMs = 1704070800000, tzOffsetMs = 0\<rparr>"

definition eastClock :: clock where
  \<comment> \<open>Monday 2024-01-01, 01:00 local time, on a device at UTC+3: the instant is
      2023-12-31T22:00Z, a Sunday (day 19722) in UTC\<close>
  "eastClock = \<lparr>nowMs = 1704060000000, tzOffsetMs = 10800000\<rparr>"

definition exampleAcademy :: AcademyInfo where
  "exampleAcademy =
     \<lparr>ai_academyName = ''Training Academy'', ai_sport = ''soccer'', ai_ageGroup = ''Youth'',
      ai_program = ''Training Program'', ai_location = ''Training Facility'',
      ai_difficulty = ''intermediate''\<rparr>"

definition emptyPlan :: TrainingPlan where
  "emptyPlan = \<lparr>tp_title = None, tp_category = None, tp_difficulty = None, tp_academyName = None\<rparr>"

definition analysisOf ::
  "OrganizationLevel option \<Rightarrow> nat \<Rightarrow> bool \<Rightarrow> nat \<Rightarrow> SessionDetail list \<Rightarrow> StructureAnalysis" where
  \<comment> \<open>an analysis with no identified weeks and no week titles\<close>
  "analysisOf organizationLevel weeks structured sessions details =
     \<lparr>sa_organizationLevel = organizationLevel,
      sa_weekStructure = \<lparr>wk_totalWeeks = weeks, wk_identifiedWeeks = [], wk_weekTitles = []\<rparr>,
      sa_sessionStructure = \<lparr>ss_hasStructuredSessions = structured, ss_totalSessions = sessions,
                             ss_sessionDetails = details\<rparr>,
      sa_durationAnalysis = \<lparr>da_averageDuration = 0\<rparr>,
      sa_documentType = ''general''\<rparr>"

definition restSection :: WeekSection where
  \<comment> \<open>a week section without a weekday name, \<^verbatim>\<open>day N\<close> or \<^verbatim>\<open>session N\<close>\<close>
  "restSection =
     \<lparr>sec_weekNumber = 1, sec_title = ''Week 1'', sec_content = ''Week 1: rest'',
      sec_startPosition = 0, sec_endPosition = 12\<rparr>"

definition knownLevels :: "string option set" where
  \<comment> \<open>the three \<^verbatim>\<open>case\<close> labels of the dispatcher's \<^verbatim>\<open>switch\<close>\<close>
  "knownLevels = {Some ''highly_structured'', Some ''moderately_structured'', Some ''basic_structure''}"

definition sessionRotation :: "string list" where
  \<comment> \<open>the \<^verbatim>\<open>dayMap\<close> array of \<^verbatim>\<open>mapSessionToDay\<close>\<close>
  "sessionRotation = [''monday'', ''wednesday'', ''friday'', ''tuesday'', ''thursday'',
                      ''saturday'', ''sunday'']"

definition failingAnalyzer :: "string \<Rightarrow> js_error + StructureAnalysis" where
  \<comment> \<open>a structure analyzer that throws\<close>
  "failingAnalyzer doc = Inl (Thrown ''analysis failed'')"

definition malformedAnalyzer :: "string \<Rightarrow> js_error + StructureAnalysis" where
  \<comment> \<open>a structure analyzer whose result has no \<^verbatim>\<open>organizationLevel\<close>\<close>
  "malformedAnalyzer doc = Inr (analysisOf None 0 False 0 [])"

definition unknownLevelAnalyzer :: "string \<Rightarrow> js_error + StructureAnalysis" where
  \<comment> \<open>a structure analyzer whose \<^verbatim>\<open>organizationLevel.level\<close> is \<^verbatim>\<open>undefined\<close>\<close>
  "unknownLevelAnalyzer doc = Inr (analysisOf (Some \<lparr>ol_level = None\<rparr>) 0 False 0 [])"

definition identityEnhancer :: "WeekSession list \<Rightarrow> js_error + WeekSession list" where
  "identityEnhancer sessions = Inr sessions"

definition failingEnhancer :: "WeekSession list \<Rightarrow> js_error + WeekSession list" where
  "failingEnhancer sessions = Inl (Thrown ''enhancement failed'')"

definition weekOneText :: string where
  "weekOneText = ''Week 1 drills''"

definition weekOnePlan :: WeekSession where
  \<comment> \<open>what the alternative week extraction makes of \<open>weekOneText\<close> on \<open>exampleClock\<close>\<close>
  "weekOnePlan =
     \<lparr>ws_weekNumber = 1,
      ws_dailySessions = [\<lparr>ds_weekNumber = 1, ds_dayNumber = 1, ds_day = ''week_plan'',
                           ds_date = 19723, ds_time = ''08:00'', ds_duration = 120,
                           ds_rawContent = ''Week 1 drills''\<rparr>],
      ws_totalDuration = 120\<rparr>"

definition fourSessions :: StructureAnalysis where
  \<comment> \<open>a moderately structured analysis with four sessions and no weeks\<close>
  "fourSessions = analysisOf (Some \<lparr>ol_level = Some ''moderately_structured''\<rparr>) 0 True 4
     [\<lparr>sd_text = ''Passing'', sd_type = ''technical''\<rparr>,
      \<lparr>sd_text = ''Shooting'', sd_type = ''technical''\<rparr>,
      \<lparr>sd_text = ''Pressing'', sd_type = ''tactical''\<rparr>,
      \<lparr>sd_text = ''Small-sided game'', sd_type = ''match''\<rparr>]"








definition springPlan :: TrainingPlan where
  \<comment> \<open>plan metadata with a title, a category and a difficulty, and an empty academy name\<close>
  "springPlan = \<lparr>tp_title = Some ''Spring Plan'', tp_category = Some ''rugby'',
                  tp_difficulty = Some ''beginner'', tp_academyName = Some []\<rparr>"

definition namedPlan :: TrainingPlan where
  \<comment> \<open>plan metadata with an academy name and a title\<close>
  "namedPlan = \<lparr>tp_title = Some ''Spring Plan'', tp_category = None,
                 tp_difficulty = Some [], tp_academyName = Some ''Lions Academy''\<rparr>"

definition clubText :: string where
  "clubText = ''RIVERSIDE CLUB\<newline>U12 tennis''"

section \<open>Raising helpers\<close>

lemma as_array_Text: "as_array (Text s) = Inl TypeError"
  by (simp add: as_array_def)

lemma as_array_Lines: "as_array (Lines ls) = Inr ls"
  by (simp add: as_array_def)

lemma extractWeekFocus_Text: "extractWeekFocus (Text s) = Inl TypeError"
  by (simp add: extractWeekFocus_def as_array_Text)

lemma extractWeekDescription_Text: "extractWeekDescription (Text s) = Inl TypeError"
  by (simp add: extractWeekDescription_def as_array_Text)

lemma createStructuredDailySession_raises:
  "createStructuredDailySession clk dayInfo weekNumber dayIndex academyInfo content da = Inl TypeError"
  by (simp add: createStructuredDailySession_def extractSessionFocus_def extractWeekFocus_Text Let_def)

lemma createGeneralWeekSession_Text:
  "createGeneralWeekSession clk (Text s) weekIndex academyInfo = Inl TypeError"
  by (simp add: createGeneralWeekSession_def as_array_Text)

lemma collect_raises:
  assumes "xs \<noteq> []" and "\<And>x. f x = Inl e"
  shows "collect f xs = Inl e"
  using assms by (cases xs) simp_all

lemma collect_Inr_iff:
  "collect f xs = Inr ys \<longleftrightarrow> list_all2 (\<lambda>x y. f x = Inr y) xs ys"
proof (induction xs arbitrary: ys)
  case Nil
  then show ?case by auto
next
  case (Cons x xs)
  show ?case
  proof (cases "f x")
    case (Inl e)
    then show ?thesis by (auto simp: list_all2_Cons1)
  next
    case (Inr y)
    then show ?thesis
      using Cons.IH by (cases "collect f xs") (auto simp: list_all2_Cons1)
  qed
qed

lemma extractDailySessionsFromWeekSection_raises:
  "extractDailySessionsFromWeekSection clk weekSection weekNumber academyInfo da = Inl TypeError"
proof (cases "findDays (sec_content weekSection) = []")
  case True
  then show ?thesis
    by (simp add: extractDailySessionsFromWeekSection_def createGeneralWeekSession_Text)
next
  case False
  then have "enumerate 0 (findDays (sec_content weekSection)) \<noteq> []"
    by (metis length_enumerate length_0_conv)
  then have "collect (\<lambda>(index, dayInfo).
                 createStructuredDailySession clk dayInfo weekNumber (index + 1) academyInfo
                   (sec_content weekSection) da)
               (enumerate 0 (findDays (sec_content weekSection))) = Inl TypeError"
    by (rule collect_raises) (simp add: createStructuredDailySession_raises split: prod.split)
  then show ?thesis
    by (simp add: extractDailySessionsFromWeekSection_def)
qed

lemma length_weekSectionsFrom: "length (weekSectionsFrom doc ts) = length ts"
  by (induction ts) (simp_all add: Let_def)

lemma length_splitTextByWeeks:
  "length (splitTextByWeeks doc ws) = length (wk_weekTitles ws)"
  by (simp add: splitTextByWeeks_def length_weekSectionsFrom)

lemma highlyStructuredWeek_raises:
  "highlyStructuredWeek clk sa ai item = Inl TypeError"
  by (simp add: highlyStructuredWeek_def extractWeekDescription_Text split: prod.split)

lemma extractFromHighlyStructuredDocument_cases:
  "extractFromHighlyStructuredDocument clk doc sa ai =
     (if wk_weekTitles (sa_weekStructure sa) = [] then Inr [] else Inl TypeError)"
proof (cases "wk_weekTitles (sa_weekStructure sa) = []")
  case True
  then have "splitTextByWeeks doc (sa_weekStructure sa) = []"
    using length_splitTextByWeeks [of doc "sa_weekStructure sa"] by simp
  with True show ?thesis by (simp add: extractFromHighlyStructuredDocument_def)
next
  case False
  then have "enumerate 0 (splitTextByWeeks doc (sa_weekStructure sa)) \<noteq> []"
    using length_splitTextByWeeks [of doc "sa_weekStructure sa"]
    by (metis length_enumerate length_0_conv)
  then have "collect (highlyStructuredWeek clk sa ai)
               (enumerate 0 (splitTextByWeeks doc (sa_weekStructure sa))) = Inl TypeError"
    by (rule collect_raises) (rule highlyStructuredWeek_raises)
  with False show ?thesis by (simp add: extractFromHighlyStructuredDocument_def)
qed

lemma totalDurationOf_sum: "totalDurationOf ds = sum_list (map ds_duration ds)"
proof -
  have "foldl (\<lambda>sum s. sum + ds_duration s) a ds = a + sum_list (map ds_duration ds)" for a
    by (induction ds arbitrary: a) simp_all
  then show ?thesis by (simp add: totalDurationOf_def)
qed

lemma dispatcher_runs_selected:
  "extractSessionsWithStructureAwareness clk doc sa ai =
     (case selectedStrategy sa of Inl e \<Rightarrow> Inl e | Inr s \<Rightarrow> runStrategy s clk doc sa ai)"
  by (simp add: extractSessionsWithStructureAwareness_def selectedStrategy_def
      extractFromModeratelyStructuredDocument_def split: option.split)

section \<open>Facts about the Date Calculator\<close>

lemma indexOf_bounds:
  assumes "x \<in> set xs"
  shows "0 \<le> indexOf xs x" and "indexOf xs x < int (length xs)"
proof -
  show "0 \<le> indexOf xs x" using assms by (simp add: indexOf_def)
  have "length (takeWhile (\<lambda>y. y \<noteq> x) xs) < length xs"
    using assms by (induction xs) auto
  then show "indexOf xs x < int (length xs)" using assms by (simp add: indexOf_def)
qed

lemma js_rem_nonneg: "0 \<le> a \<Longrightarrow> js_rem a 7 = a mod 7"
  by (cases "a = 0") (simp_all add: js_rem_def)

lemma div_add_days: "(x + k * msPerDay) div msPerDay = x div msPerDay + k"
  by (simp add: msPerDay_def)

lemma weekday_arith:
  fixes i u l w :: int
  shows "(u + w * 7 + (i - (l + w * 7 + 4) mod 7 + 7) mod 7 + 4) mod 7 = (i + (u - l)) mod 7"
proof -
  have m: "x mod 7 = x - 7 * (x div 7)" for x :: int
    by (simp add: minus_mult_div_eq_mod)
  define c where "c = (l + w * 7 + 4) mod 7"
  define q1 where "q1 = (l + w * 7 + 4) div 7"
  define q2 where "q2 = (i - c + 7) div 7"
  have c: "c = l + w * 7 + 4 - 7 * q1"
    unfolding c_def q1_def by (rule m)
  have a: "(i - c + 7) mod 7 = i - c + 7 - 7 * q2"
    unfolding q2_def by (rule m)
  have "u + w * 7 + (i - c + 7) mod 7 + 4 = i + (u - l) + 7 * (1 + q1 - q2)"
  proof -
    have "u + w * 7 + (i - c + 7) mod 7 + 4 = u + w * 7 + (i - c + 7 - 7 * q2) + 4"
      by (simp only: a)
    also have "\<dots> = i + (u - l) + 7 * (1 + q1 - q2)"
      by (subst c) (simp add: algebra_simps)
    finally show ?thesis .
  qed
  then have "(u + w * 7 + (i - c + 7) mod 7 + 4) mod 7 = (i + (u - l)) mod 7"
    by (simp only: mod_mult_self2)
  then show ?thesis by (simp only: c_def)
qed

lemma calculateSessionDate_eq:
  "calculateSessionDate clk weekNumber dayName =
     utcDay clk + (int weekNumber - 1) * 7 +
       js_rem (indexOf weekdays (toLowerCase dayName)
                 - weekdayOfDay (localDay clk + (int weekNumber - 1) * 7) + 7) 7"
proof -
  define w where "w = (int weekNumber - 1) * 7"
  define a where "a = js_rem (indexOf weekdays (toLowerCase dayName)
                 - weekdayOfDay (localDay clk + w) + 7) 7"
  have l: "(nowMs clk + tzOffsetMs clk + (int weekNumber - 1) * 7 * msPerDay) div msPerDay = localDay clk + w"
    using div_add_days [of "nowMs clk + tzOffsetMs clk" w] by (simp add: localDay_def w_def mult.assoc)
  have "calculateSessionDate clk weekNumber dayName =
          (nowMs clk + (w + a) * msPerDay) div msPerDay"
    unfolding calculateSessionDate_def Let_def l a_def [symmetric]
    by (simp add: w_def algebra_simps)
  also have "\<dots> = utcDay clk + (w + a)"
    by (simp only: div_add_days utcDay_def)
  finally show ?thesis by (simp add: w_def a_def)
qed

lemma calculateSessionDate_not_before:
  "utcDay clk + (int weekNumber - 1) * 7 \<le> calculateSessionDate clk weekNumber dayName"
proof -
  have "- 1 \<le> indexOf weekdays (toLowerCase dayName)" by (simp add: indexOf_def)
  moreover have "weekdayOfDay (localDay clk + (int weekNumber - 1) * 7) \<le> 6"
    by (simp add: weekdayOfDay_def)
  ultimately have "0 \<le> indexOf weekdays (toLowerCase dayName)
                 - weekdayOfDay (localDay clk + (int weekNumber - 1) * 7) + 7"
    by linarith
  then have "0 \<le> js_rem (indexOf weekdays (toLowerCase dayName)
                 - weekdayOfDay (localDay clk + (int weekNumber - 1) * 7) + 7) 7"
    by (simp add: js_rem_nonneg)
  then show ?thesis by (simp add: calculateSessionDate_eq)
qed

lemma calculateSessionDate_weekday:
  assumes "toLowerCase dayName \<in> set weekdays"
  shows "weekdayOfDay (calculateSessionDate clk weekNumber dayName) =
           (indexOf weekdays (toLowerCase dayName) + (utcDay clk - localDay clk)) mod 7"
proof -
  define i where "i = indexOf weekdays (toLowerCase dayName)"
  define w where "w = int weekNumber - 1"
  define c where "c = weekdayOfDay (localDay clk + w * 7)"
  have i: "0 \<le> i" "i < 7"
    using indexOf_bounds [OF assms] by (simp_all add: i_def weekdays_def)
  have c: "0 \<le> c" "c \<le> 6" by (simp_all add: c_def weekdayOfDay_def)
  have r: "js_rem (i - c + 7) 7 = (i - c + 7) mod 7"
    using i c by (intro js_rem_nonneg) simp
  have "calculateSessionDate clk weekNumber dayName = utcDay clk + w * 7 + (i - c + 7) mod 7"
    by (simp only: calculateSessionDate_eq i_def [symmetric] w_def [symmetric] c_def [symmetric] r)
  then have "weekdayOfDay (calculateSessionDate clk weekNumber dayName) =
          (utcDay clk + w * 7 + (i - (localDay clk + w * 7 + 4) mod 7 + 7) mod 7 + 4) mod 7"
    by (simp only: weekdayOfDay_def c_def)
  also have "\<dots> = (i + (utcDay clk - localDay clk)) mod 7"
    by (rule weekday_arith)
  finally show ?thesis by (simp only: i_def)
qed

lemma calculateSessionDate_aligned:
  assumes "toLowerCase dayName \<in> set weekdays" and "utcDay clk = localDay clk"
  shows "weekdayOfDay (calculateSessionDate clk weekNumber dayName)
           = indexOf weekdays (toLowerCase dayName)"
    and "localDay clk + (int weekNumber - 1) * 7 \<le> calculateSessionDate clk weekNumber dayName"
proof -
  have "0 \<le> indexOf weekdays (toLowerCase dayName)"
    and "indexOf weekdays (toLowerCase dayName) < 7"
    using indexOf_bounds [OF assms(1)] by (simp_all add: weekdays_def)
  then show "weekdayOfDay (calculateSessionDate clk weekNumber dayName)
           = indexOf weekdays (toLowerCase dayName)"
    by (simp add: calculateSessionDate_weekday [OF assms(1)] assms(2))
  show "localDay clk + (int weekNumber - 1) * 7 \<le> calculateSessionDate clk weekNumber dayName"
    using calculateSessionDate_not_before [of clk weekNumber dayName] by (simp add: assms(2))
qed

section \<open>Strategy A and the zero-marker fallback\<close>

text \<open>
  C5. Under Strategy A, a week section in which the day-marker scan finds nothing should
  give exactly one synthesized overview session carrying the section's week number, and
  the fallback should not raise. The code raises instead: \<^verbatim>\<open>createGeneralWeekSession\<close>
  hands the section's string content to \<^verbatim>\<open>extractActivities\<close>, which calls
  \<^verbatim>\<open>content.forEach\<close>. On the section \<^verbatim>\<open>"Week 1: rest"\<close> the scan finds no marker and the
  call ends in a \<open>TypeError\<close>.
\<close>

theorem zero_marker_section_raises:
  "findDays (sec_content restSection) = [] \<and>
   extractDailySessionsFromWeekSection exampleClock restSection 1 exampleAcademy
     \<lparr>da_averageDuration = 0\<rparr> = Inl TypeError"
proof
  show "findDays (sec_content restSection) = []"
    by code_simp
  show "extractDailySessionsFromWeekSection exampleClock restSection 1 exampleAcademy
          \<lparr>da_averageDuration = 0\<rparr> = Inl TypeError"
    by (rule extractDailySessionsFromWeekSection_raises)
qed

text \<open>
  C2. Every strategy the dispatcher selects should return at least one week, each with at
  least one daily session, also Strategy A when the analyzer reports no week titles. For a
  \<^verbatim>\<open>highly_structured\<close> analysis without week titles the code returns the empty list,
  whatever the text is.
\<close>

theorem highly_structured_without_titles_is_empty:
  "extractSessionsWithStructureAwareness clk doc
     (analysisOf (Some \<lparr>ol_level = Some ''highly_structured''\<rparr>) weeks structured sessions details)
     ai = Inr []"
  by (simp add: extractSessionsWithStructureAwareness_def analysisOf_def
      extractFromHighlyStructuredDocument_cases)

text \<open>
  C4. For a valid weekday name the computed date should fall on that weekday and never
  before today plus \<open>(weekNumber - 1) * 7\<close> days. The weekday is chosen on the local
  calendar and the date is printed in UTC: on a device at UTC+3, at 01:00 on Monday
  2024-01-01, \<^verbatim>\<open>calculateSessionDate(1, 'monday')\<close> is day 19722, Sunday 2023-12-31, one day
  before the local today.
\<close>

theorem monday_is_printed_as_sunday:
  "calculateSessionDate eastClock 1 ''monday'' = 19722 \<and>
   weekdayOfDay (calculateSessionDate eastClock 1 ''monday'') = 0 \<and>
   indexOf weekdays ''monday'' = 1 \<and>
   localDay eastClock = 19723"
  by code_simp

section \<open>Week numbers and durations of the strategies\<close>


lemma collect_weekNumbers:
  assumes "collect f ns = Inr weeks" and "\<And>n w. f n = Inr w \<Longrightarrow> ws_weekNumber w = n"
  shows "map ws_weekNumber weeks = ns"
proof -
  have "list_all2 (\<lambda>n w. f n = Inr w) ns weeks"
    using assms(1) by (simp add: collect_Inr_iff)
  then show ?thesis
    by (induction rule: list_all2_induct) (simp_all add: assms(2))
qed

lemma collect_all:
  assumes "collect f xs = Inr ys" and "\<And>x y. f x = Inr y \<Longrightarrow> P y" and "y \<in> set ys"
  shows "P y"
proof -
  have "list_all2 (\<lambda>x y. f x = Inr y) xs ys"
    using assms(1) by (simp add: collect_Inr_iff)
  then have "\<forall>y\<in>set ys. P y"
    by (induction rule: list_all2_induct) (auto intro: assms(2))
  then show ?thesis using assms(3) by blast
qed

lemma partialWeekSession_Inr:
  assumes "partialWeekSession clk doc ws ai n = Inr w"
  shows "ws_weekNumber w = n"
    and "ws_totalDuration w = sum_list (map ds_duration (ws_dailySessions w))"
  using assms
  by (auto simp: partialWeekSession_def Let_def totalDurationOf_sum split: sum.splits if_splits)

lemma altWeekSession_Inr:
  assumes "altWeekSession clk doc ai item = Inr w"
  shows "ws_totalDuration w = sum_list (map ds_duration (ws_dailySessions w))"
  using assms
  by (auto simp: altWeekSession_def Let_def split: sum.splits prod.splits)

lemma weekNumbers_unstructured:
  "map ws_weekNumber (extractFromUnstructuredDocument clk ai) = [1 ..< 4 + 1]"
  unfolding extractFromUnstructuredDocument_def by (simp add: comp_def del: upt_Suc)

lemma weekNumbers_basic:
  "\<exists>n. map ws_weekNumber (extractFromBasicStructuredDocument clk sa ai) = [1 ..< n]"
  unfolding extractFromBasicStructuredDocument_def Let_def
  by (rule exI) (simp add: comp_def del: upt_Suc)

lemma weekNumbers_sessions:
  "map ws_weekNumber (extractWithSessionStructure clk sa ai)
     = [1 ..< (ss_totalSessions (sa_sessionStructure sa) + 2) div 3 + 1]"
  unfolding extractWithSessionStructure_def Let_def by (simp add: comp_def del: upt_Suc)

lemma weekNumbers_partial:
  assumes "extractWithPartialWeekStructure clk doc sa ai = Inr weeks"
  shows "\<exists>n. map ws_weekNumber weeks = [1 ..< n]"
proof -
  define m where "m = (if wk_totalWeeks (sa_weekStructure sa) = 0 then 12
                       else wk_totalWeeks (sa_weekStructure sa)) + 1"
  have "collect (partialWeekSession clk doc (sa_weekStructure sa) ai) [1 ..< m] = Inr weeks"
    using assms by (simp add: extractWithPartialWeekStructure_def Let_def m_def)
  then have "map ws_weekNumber weeks = [1 ..< m]"
    by (rule collect_weekNumbers) (rule partialWeekSession_Inr(1))
  then show ?thesis ..
qed

lemma weekNumbers_runStrategy:
  assumes "runStrategy s clk doc sa ai = Inr weeks"
  shows "\<exists>a b. map ws_weekNumber weeks = [a ..< b]"
proof (cases s)
  case FromHighlyStructured
  with assms have "weeks = []"
    by (simp add: extractFromHighlyStructuredDocument_cases split: if_splits)
  then have "map ws_weekNumber weeks = [0 ..< 0]" by simp
  then show ?thesis by blast
next
  case WithPartialWeekStructure
  with assms have "extractWithPartialWeekStructure clk doc sa ai = Inr weeks" by simp
  then show ?thesis using weekNumbers_partial by blast
next
  case WithSessionStructure
  with assms have "weeks = extractWithSessionStructure clk sa ai" by simp
  then show ?thesis using weekNumbers_sessions by blast
next
  case FromBasicStructured
  with assms have "weeks = extractFromBasicStructuredDocument clk sa ai" by simp
  then show ?thesis using weekNumbers_basic by blast
next
  case FromUnstructured
  with assms have "weeks = extractFromUnstructuredDocument clk ai" by simp
  then show ?thesis using weekNumbers_unstructured by blast
qed

lemma durations_runStrategy:
  assumes "runStrategy s clk doc sa ai = Inr weeks" and "w \<in> set weeks"
  shows "ws_totalDuration w = sum_list (map ds_duration (ws_dailySessions w))"
proof (cases s)
  case FromHighlyStructured
  with assms(1) have "weeks = []"
    by (simp add: extractFromHighlyStructuredDocument_cases split: if_splits)
  with assms(2) show ?thesis by simp
next
  case WithPartialWeekStructure
  with assms(1) have "collect (partialWeekSession clk doc (sa_weekStructure sa) ai)
      [1 ..< (if wk_totalWeeks (sa_weekStructure sa) = 0 then 12 else wk_totalWeeks (sa_weekStructure sa)) + 1] = Inr weeks"
    by (simp add: extractWithPartialWeekStructure_def Let_def)
  then show ?thesis
    by (rule collect_all) (use assms(2) partialWeekSession_Inr(2) in auto)
next
  case WithSessionStructure
  with assms show ?thesis
    by (auto simp: extractWithSessionStructure_def Let_def totalDurationOf_sum)
next
  case FromBasicStructured
  with assms show ?thesis
    by (auto simp: extractFromBasicStructuredDocument_def Let_def totalDurationOf_sum)
next
  case FromUnstructured
  with assms show ?thesis
    by (auto simp: extractFromUnstructuredDocument_def createBasicSession_def)
qed

lemma durations_alternative:
  assumes "attemptAlternativeWeekExtraction clk doc ai = Inr weeks" and "w \<in> set weeks"
  shows "ws_totalDuration w = sum_list (map ds_duration (ws_dailySessions w))"
  using assms(1) unfolding attemptAlternativeWeekExtraction_def Let_def
  by (rule collect_all) (use assms(2) altWeekSession_Inr in auto)

lemma dispatcher_result:
  assumes "extractSessionsWithStructureAwareness clk doc sa ai = Inr weeks"
  shows "\<exists>s. runStrategy s clk doc sa ai = Inr weeks"
  using assms unfolding dispatcher_runs_selected
  by (cases "selectedStrategy sa") auto

lemma unstructured_shape:
  "length (extractFromUnstructuredDocument clk ai) = 4"
  "map (map ds_day \<circ> ws_dailySessions) (extractFromUnstructuredDocument clk ai)
     = replicate 4 [''monday'', ''wednesday'', ''friday'']"
  "map (map ds_duration \<circ> ws_dailySessions) (extractFromUnstructuredDocument clk ai)
     = replicate 4 [90, 90, 90]"
  "foldl (\<lambda>sum week. sum + length (ws_dailySessions week)) 0 (extractFromUnstructuredDocument clk ai) = 12"
  by (simp_all add: extractFromUnstructuredDocument_def createBasicSession_def upt_rec [of 1] upt_rec [of 2] upt_rec [of 3] upt_rec [of 4] numeral_eq_Suc)

lemma unstructured_first:
  "extractFromUnstructuredDocument clk ai ! 0 \<in> set (extractFromUnstructuredDocument clk ai)"
  by (rule nth_mem) (simp add: unstructured_shape(1))

lemma collect_raises_at:
  assumes "x \<in> set xs" and "f x = Inl e" and "\<And>y e'. f y = Inl e' \<Longrightarrow> e' = e"
  shows "collect f xs = Inl e"
  using assms(1)
proof (induction xs)
  case Nil
  then show ?case by simp
next
  case (Cons a xs)
  show ?case
  proof (cases "f a")
    case (Inl e')
    then show ?thesis using assms(3) by simp
  next
    case (Inr y)
    with Cons assms(2) have "collect f xs = Inl e" by auto
    with Inr show ?thesis by simp
  qed
qed

lemma partialWeekSession_raises_TypeError:
  assumes "partialWeekSession clk doc ws ai n = Inl e"
  shows "e = TypeError"
  using assms
  by (auto simp: partialWeekSession_def extractWeekFocusByNumber_def extractWeekFocus_Text Let_def
      split: if_splits option.splits sum.splits)

lemma extractWithPartialWeekStructure_raises:
  assumes "n \<in> set (wk_identifiedWeeks (sa_weekStructure sa))"
    and "1 \<le> n" and "n \<le> wk_totalWeeks (sa_weekStructure sa)"
    and "search (weekNumberPattern n) doc \<noteq> None"
  shows "extractWithPartialWeekStructure clk doc sa ai = Inl TypeError"
proof -
  have "weekBlock doc n \<noteq> None"
    using assms(4) by (auto simp: weekBlock_def Let_def split: option.splits)
  then have r: "partialWeekSession clk doc (sa_weekStructure sa) ai n = Inl TypeError"
    using assms(1)
    by (auto simp: partialWeekSession_def extractWeekFocusByNumber_def extractWeekFocus_Text)
  have m: "n \<in> set [1 ..< (if wk_totalWeeks (sa_weekStructure sa) = 0 then 12
                            else wk_totalWeeks (sa_weekStructure sa)) + 1]"
    using assms(2,3) by auto
  show ?thesis
    unfolding extractWithPartialWeekStructure_def Let_def
    using m r by (rule collect_raises_at) (rule partialWeekSession_raises_TypeError)
qed

lemma default_strategies_nonempty:
  assumes "weeks = extractFromUnstructuredDocument clk ai
           \<or> weeks = extractFromBasicStructuredDocument clk sa ai"
  shows "weeks \<noteq> []" and "\<forall>w\<in>set weeks. length (ws_dailySessions w) = 3"
proof -
  have b: "extractFromBasicStructuredDocument clk sa ai \<noteq> []"
    by (simp add: extractFromBasicStructuredDocument_def Let_def)
  have u: "extractFromUnstructuredDocument clk ai \<noteq> []"
    using unstructured_shape(1) [of clk ai] by auto
  show "weeks \<noteq> []" using assms b u by auto
  show "\<forall>w\<in>set weeks. length (ws_dailySessions w) = 3"
    using assms
    by (auto simp: extractFromUnstructuredDocument_def extractFromBasicStructuredDocument_def
        generateDefaultWeekSessions_def Let_def)
qed

text \<open>
  C3. Every week produced by one of the strategies, through the dispatcher or directly, or
  by the alternative week extraction, has a \<open>totalDuration\<close> equal to the sum of the
  durations of its daily sessions. (Strategy A contributes no week: it returns the empty
  list or raises, see \<open>extractFromHighlyStructuredDocument_cases\<close>.)
\<close>

theorem totalDuration_is_sum_of_durations:
  assumes "runStrategy s clk doc sa ai = Inr weeks
           \<or> extractSessionsWithStructureAwareness clk doc sa ai = Inr weeks
           \<or> attemptAlternativeWeekExtraction clk doc ai = Inr weeks"
    and "w \<in> set weeks"
  shows "ws_totalDuration w = sum_list (map ds_duration (ws_dailySessions w))"
proof -
  consider (strategy) "runStrategy s clk doc sa ai = Inr weeks"
    | (dispatcher) "extractSessionsWithStructureAwareness clk doc sa ai = Inr weeks"
    | (alternative) "attemptAlternativeWeekExtraction clk doc ai = Inr weeks"
    using assms(1) by blast
  then show ?thesis
  proof cases
    case strategy
    then show ?thesis using assms(2) by (rule durations_runStrategy)
  next
    case dispatcher
    then obtain s' where "runStrategy s' clk doc sa ai = Inr weeks"
      using dispatcher_result by blast
    then show ?thesis using assms(2) by (rule durations_runStrategy)
  next
    case alternative
    then show ?thesis using assms(2) by (rule durations_alternative)
  qed
qed

theorem totalDuration_is_sum_of_durations_witness:
  "ws_totalDuration (extractFromUnstructuredDocument exampleClock exampleAcademy ! 0)
     = sum_list (map ds_duration
         (ws_dailySessions (extractFromUnstructuredDocument exampleClock exampleAcademy ! 0)))
   \<and> ws_totalDuration (extractFromUnstructuredDocument exampleClock exampleAcademy ! 0) = 270
   \<and> attemptAlternativeWeekExtraction exampleClock weekOneText exampleAcademy = Inr [weekOnePlan]
   \<and> ws_totalDuration weekOnePlan = sum_list (map ds_duration (ws_dailySessions weekOnePlan))"
proof (intro conjI)
  have r: "runStrategy FromUnstructured exampleClock ''Training notes''
             (analysisOf None 0 False 0 []) exampleAcademy
             = Inr (extractFromUnstructuredDocument exampleClock exampleAcademy)
           \<or> extractSessionsWithStructureAwareness exampleClock ''Training notes''
               (analysisOf None 0 False 0 []) exampleAcademy
             = Inr (extractFromUnstructuredDocument exampleClock exampleAcademy)
           \<or> attemptAlternativeWeekExtraction exampleClock ''Training notes'' exampleAcademy
             = Inr (extractFromUnstructuredDocument exampleClock exampleAcademy)"
    by simp
  show "ws_totalDuration (extractFromUnstructuredDocument exampleClock exampleAcademy ! 0)
     = sum_list (map ds_duration
         (ws_dailySessions (extractFromUnstructuredDocument exampleClock exampleAcademy ! 0)))"
    using totalDuration_is_sum_of_durations [OF r unstructured_first] .
  show "ws_totalDuration (extractFromUnstructuredDocument exampleClock exampleAcademy ! 0) = 270"
    by (simp add: extractFromUnstructuredDocument_def upt_rec [of 1])
  show alt: "attemptAlternativeWeekExtraction exampleClock weekOneText exampleAcademy
               = Inr [weekOnePlan]"
    by code_simp
  have a: "runStrategy FromUnstructured exampleClock weekOneText (analysisOf None 0 False 0 [])
             exampleAcademy = Inr [weekOnePlan]
           \<or> extractSessionsWithStructureAwareness exampleClock weekOneText
               (analysisOf None 0 False 0 []) exampleAcademy = Inr [weekOnePlan]
           \<or> attemptAlternativeWeekExtraction exampleClock weekOneText exampleAcademy
               = Inr [weekOnePlan]"
    using alt by simp
  have m: "weekOnePlan \<in> set [weekOnePlan]" by simp
  show "ws_totalDuration weekOnePlan = sum_list (map ds_duration (ws_dailySessions weekOnePlan))"
    using totalDuration_is_sum_of_durations [OF a m] .
qed

section \<open>The dispatcher\<close>

text \<open>
  C8. The dispatcher selects its strategy from three components of the analysis alone: two
  analyses with the same \<^verbatim>\<open>organizationLevel.level\<close> (or both without an
  \<^verbatim>\<open>organizationLevel\<close>), the same \<^verbatim>\<open>weekStructure.totalWeeks\<close> and the same
  \<^verbatim>\<open>sessionStructure.hasStructuredSessions\<close> select the same strategy, and the dispatcher
  runs exactly the selected strategy on each.
\<close>

theorem dispatcher_selection_deterministic:
  assumes "map_option ol_level (sa_organizationLevel sa1) = map_option ol_level (sa_organizationLevel sa2)"
    and "wk_totalWeeks (sa_weekStructure sa1) = wk_totalWeeks (sa_weekStructure sa2)"
    and "ss_hasStructuredSessions (sa_sessionStructure sa1) = ss_hasStructuredSessions (sa_sessionStructure sa2)"
  shows "selectedStrategy sa1 = selectedStrategy sa2
    \<and> extractSessionsWithStructureAwareness clk doc sa1 ai
        = (case selectedStrategy sa1 of Inl e \<Rightarrow> Inl e | Inr s \<Rightarrow> runStrategy s clk doc sa1 ai)
    \<and> extractSessionsWithStructureAwareness clk doc sa2 ai
        = (case selectedStrategy sa1 of Inl e \<Rightarrow> Inl e | Inr s \<Rightarrow> runStrategy s clk doc sa2 ai)"
proof -
  have "selectedStrategy sa1 = selectedStrategy sa2"
    using assms
    by (cases "sa_organizationLevel sa1"; cases "sa_organizationLevel sa2")
       (simp_all add: selectedStrategy_def)
  then show ?thesis by (simp add: dispatcher_runs_selected)
qed

theorem dispatcher_selection_deterministic_witness:
  "selectedStrategy (analysisOf (Some \<lparr>ol_level = Some ''moderately_structured''\<rparr>) 0 True 4 [])
     = selectedStrategy (analysisOf (Some \<lparr>ol_level = Some ''moderately_structured''\<rparr>) 0 True 7
          [\<lparr>sd_text = ''Passing'', sd_type = ''technical''\<rparr>])
   \<and> selectedStrategy (analysisOf (Some \<lparr>ol_level = Some ''moderately_structured''\<rparr>) 0 True 4 [])
     = Inr WithSessionStructure"
proof
  show "selectedStrategy (analysisOf (Some \<lparr>ol_level = Some ''moderately_structured''\<rparr>) 0 True 4 [])
     = selectedStrategy (analysisOf (Some \<lparr>ol_level = Some ''moderately_structured''\<rparr>) 0 True 7
          [\<lparr>sd_text = ''Passing'', sd_type = ''technical''\<rparr>])"
    using dispatcher_selection_deterministic [of "analysisOf (Some \<lparr>ol_level = Some ''moderately_structured''\<rparr>) 0 True 4 []"
                 "analysisOf (Some \<lparr>ol_level = Some ''moderately_structured''\<rparr>) 0 True 7
                    [\<lparr>sd_text = ''Passing'', sd_type = ''technical''\<rparr>]"]
    by (simp add: analysisOf_def)
  show "selectedStrategy (analysisOf (Some \<lparr>ol_level = Some ''moderately_structured''\<rparr>) 0 True 4 [])
     = Inr WithSessionStructure"
    by (simp add: selectedStrategy_def analysisOf_def)
qed

section \<open>The pipeline under analyzer failure\<close>

text \<open>
  C1, as the claim states it: when the structure analyzer throws, the pipeline should
  still return a result built by the unstructured fallback. It does not: the outer
  \<^verbatim>\<open>catch\<close> wraps the error and throws it again.
\<close>

theorem analyzer_throw_is_not_recovered:
  "extractSessionsFromDocument exampleClock (Inr ''Training notes'') failingAnalyzer identityEnhancer emptyPlan
     = Inl (PlatformError (Thrown ''analysis failed'') ''Enhanced Session Extraction'')"
  by (simp add: extractSessionsFromDocument_def extractionSteps_def failingAnalyzer_def)

text \<open>
  C1, amended. When the structure analyzer throws, or returns a shape without
  \<^verbatim>\<open>organizationLevel\<close>, \<^verbatim>\<open>extractSessionsFromDocument\<close> raises the error wrapped under the
  label \<^verbatim>\<open>Enhanced Session Extraction\<close>. The unstructured fallback is what the pipeline
  returns when the analysis has an \<^verbatim>\<open>organizationLevel\<close> whose level is none of the three
  known ones and the enhancement fails or returns its input: the result then has
  \<open>totalWeeks = 4\<close> and twelve sessions, every week Monday, Wednesday and Friday at 90
  minutes.
\<close>

theorem analyzer_failure_is_rethrown:
  "(analyze doc = Inl e \<longrightarrow>
      extractSessionsFromDocument clk (Inr doc) analyze enhance plan
        = Inl (PlatformError e ''Enhanced Session Extraction''))
   \<and> (analyze doc = Inr sa \<and> sa_organizationLevel sa = None \<longrightarrow>
      extractSessionsFromDocument clk (Inr doc) analyze enhance plan
        = Inl (PlatformError TypeError ''Enhanced Session Extraction''))
   \<and> (analyze doc = Inr sa \<and> sa_organizationLevel sa = Some ol \<and> ol_level ol \<notin> knownLevels
        \<and> (enhance (extractFromUnstructuredDocument clk (extractAcademyInfo doc plan (Some sa))) = Inl e'
            \<or> enhance (extractFromUnstructuredDocument clk (extractAcademyInfo doc plan (Some sa)))
                = Inr (extractFromUnstructuredDocument clk (extractAcademyInfo doc plan (Some sa)))) \<longrightarrow>
      extractSessionsFromDocument clk (Inr doc) analyze enhance plan
        = Inr \<lparr>er_academyInfo = extractAcademyInfo doc plan (Some sa),
               er_sessions = extractFromUnstructuredDocument clk (extractAcademyInfo doc plan (Some sa)),
               er_totalWeeks = 4,
               er_totalSessions = 12\<rparr>)
   \<and> map (map ds_day \<circ> ws_dailySessions) (extractFromUnstructuredDocument clk ai)
        = replicate 4 [''monday'', ''wednesday'', ''friday'']
   \<and> map (map ds_duration \<circ> ws_dailySessions) (extractFromUnstructuredDocument clk ai)
        = replicate 4 [90, 90, 90]"
proof (intro conjI impI)
  assume "analyze doc = Inl e"
  then show "extractSessionsFromDocument clk (Inr doc) analyze enhance plan
        = Inl (PlatformError e ''Enhanced Session Extraction'')"
    by (simp add: extractSessionsFromDocument_def extractionSteps_def)
next
  assume "analyze doc = Inr sa \<and> sa_organizationLevel sa = None"
  then show "extractSessionsFromDocument clk (Inr doc) analyze enhance plan
        = Inl (PlatformError TypeError ''Enhanced Session Extraction'')"
    by (simp add: extractSessionsFromDocument_def extractionSteps_def
        extractSessionsWithStructureAwareness_def)
next
  let ?ai = "extractAcademyInfo doc plan (Some sa)"
  let ?base = "extractFromUnstructuredDocument clk ?ai"
  assume a: "analyze doc = Inr sa \<and> sa_organizationLevel sa = Some ol \<and> ol_level ol \<notin> knownLevels
        \<and> (enhance ?base = Inl e' \<or> enhance ?base = Inr ?base)"
  then have d: "extractSessionsWithStructureAwareness clk doc sa ?ai = Inr ?base"
    by (auto simp: extractSessionsWithStructureAwareness_def knownLevels_def)
  have e: "(case enhance ?base of Inl e \<Rightarrow> ?base | Inr enhanced \<Rightarrow> enhanced) = ?base"
    using a by auto
  show "extractSessionsFromDocument clk (Inr doc) analyze enhance plan
        = Inr \<lparr>er_academyInfo = ?ai, er_sessions = ?base, er_totalWeeks = 4, er_totalSessions = 12\<rparr>"
    using a by (simp add: extractSessionsFromDocument_def extractionSteps_def Let_def d e
        unstructured_shape(1,4))
qed (rule unstructured_shape)+

theorem analyzer_failure_is_rethrown_witness:
  "extractSessionsFromDocument exampleClock (Inr weekOneText) failingAnalyzer failingEnhancer emptyPlan
     = Inl (PlatformError (Thrown ''analysis failed'') ''Enhanced Session Extraction'')
   \<and> extractSessionsFromDocument exampleClock (Inr ''Training notes'') malformedAnalyzer
        identityEnhancer emptyPlan
     = Inl (PlatformError TypeError ''Enhanced Session Extraction'')
   \<and> extractSessionsFromDocument exampleClock (Inr ''Training notes'') unknownLevelAnalyzer
        failingEnhancer emptyPlan
     = Inr \<lparr>er_academyInfo = exampleAcademy,
            er_sessions = extractFromUnstructuredDocument exampleClock exampleAcademy,
            er_totalWeeks = 4, er_totalSessions = 12\<rparr>"
proof (intro conjI)
  have f: "failingAnalyzer weekOneText = Inl (Thrown ''analysis failed'')"
    by (simp add: failingAnalyzer_def)
  show "extractSessionsFromDocument exampleClock (Inr weekOneText) failingAnalyzer failingEnhancer
          emptyPlan
     = Inl (PlatformError (Thrown ''analysis failed'') ''Enhanced Session Extraction'')"
    using f analyzer_failure_is_rethrown [of failingAnalyzer weekOneText "Thrown ''analysis failed''"
          exampleClock failingEnhancer emptyPlan]
    by blast
next
  have m: "malformedAnalyzer ''Training notes'' = Inr (analysisOf None 0 False 0 []) \<and>
           sa_organizationLevel (analysisOf None 0 False 0 []) = None"
    by (simp add: malformedAnalyzer_def analysisOf_def)
  show "extractSessionsFromDocument exampleClock (Inr ''Training notes'') malformedAnalyzer
          identityEnhancer emptyPlan
     = Inl (PlatformError TypeError ''Enhanced Session Extraction'')"
    using m analyzer_failure_is_rethrown [of malformedAnalyzer "''Training notes''" _ exampleClock
          identityEnhancer emptyPlan "analysisOf None 0 False 0 []"]
    by blast
next
  let ?sa = "analysisOf (Some \<lparr>ol_level = None\<rparr>) 0 False 0 []"
  have ai: "extractAcademyInfo ''Training notes'' emptyPlan (Some ?sa) = exampleAcademy"
    by code_simp
  let ?base = "extractFromUnstructuredDocument exampleClock exampleAcademy"
  have u: "unknownLevelAnalyzer ''Training notes'' = Inr ?sa \<and>
           sa_organizationLevel ?sa = Some \<lparr>ol_level = None\<rparr> \<and>
           ol_level \<lparr>ol_level = None\<rparr> \<notin> knownLevels \<and>
           (failingEnhancer ?base = Inl (Thrown ''enhancement failed'') \<or>
            failingEnhancer ?base = Inr ?base)"
    by (simp add: unknownLevelAnalyzer_def analysisOf_def knownLevels_def failingEnhancer_def)
  show "extractSessionsFromDocument exampleClock (Inr ''Training notes'') unknownLevelAnalyzer
          failingEnhancer emptyPlan
     = Inr \<lparr>er_academyInfo = exampleAcademy, er_sessions = ?base,
            er_totalWeeks = 4, er_totalSessions = 12\<rparr>"
    using u analyzer_failure_is_rethrown [of unknownLevelAnalyzer "''Training notes''" _ exampleClock
          failingEnhancer emptyPlan ?sa "\<lparr>ol_level = None\<rparr>" "Thrown ''enhancement failed''"]
    unfolding ai by blast
qed

section \<open>The academy information\<close>

lemma letter_not_space: "is_letter c \<Longrightarrow> \<not> is_space c"
  by (auto simp: is_letter_def is_space_def upper_letters_def lower_letters_def)

lemma firstSome_SomeD: "firstSome f xs = Some y \<Longrightarrow> \<exists>x\<in>set xs. f x = Some y"
  by (induction xs) (auto split: option.splits)

lemma find_SomeD: "find P xs = Some x \<Longrightarrow> x \<in> set xs \<and> P x"
  by (induction xs) (auto split: if_splits)

lemma academyPattern_trim_nonempty:
  assumes "academyPattern line = Some p"
  shows "js_trim p \<noteq> []"
proof -
  define run where "run = takeWhile (\<lambda>c. is_letter c \<or> is_space c) line"
  define ending where "ending = (\<lambda>kw p. 2 + length kw \<le> length p \<and> suffix kw (toLowerCase p))"
  have line: "line \<noteq> []" "is_letter (hd line)"
    using assms by (auto simp: academyPattern_def Let_def split: if_splits)
  have "find (ending ''academy'') (rev (prefixes run)) = Some p
        \<or> find (ending ''club'') (rev (prefixes run)) = Some p"
    using assms line
    by (auto simp: academyPattern_def Let_def run_def ending_def split: if_splits option.splits)
  then have "p \<in> set (prefixes run)" and "p \<noteq> []"
    by (auto dest!: find_SomeD simp: ending_def)
  then have pre: "prefix p run" by simp
  have "hd run = hd line"
    using line by (cases line) (simp_all add: run_def)
  with pre \<open>p \<noteq> []\<close> have "hd p = hd line"
    by (cases p; cases run) auto
  then have hd: "\<not> is_space (hd p)"
    using line(2) by (simp add: letter_not_space)
  with \<open>p \<noteq> []\<close> have d: "dropWhile is_space p = p"
    by (cases p) simp_all
  have "hd p \<in> set (rev p)" using \<open>p \<noteq> []\<close> by simp
  with hd have "dropWhile is_space (rev p) \<noteq> []"
    by (auto simp: dropWhile_eq_Nil_conv)
  then show ?thesis by (simp add: js_trim_def d)
qed

lemma search_SomeD:
  "search m s = Some (i, n) \<Longrightarrow> m (drop i s) = Some n"
proof (induction s arbitrary: i)
  case Nil
  then show ?case by (auto split: option.splits)
next
  case (Cons c cs)
  then show ?case by (auto split: option.splits)
qed

lemma matchFirst_SomeD:
  assumes "matchFirst m s = Some t"
  obtains i n where "m (drop i s) = Some n" and "t = take n (drop i s)"
  using assms search_SomeD
  by (fastforce simp: matchFirst_def split: option.splits)

lemma m_alts_lit_SomeD:
  "m_alts (map m_lit pats) s = Some n \<Longrightarrow>
     \<exists>pat\<in>set pats. toLowerCase (take (length pat) s) = pat \<and> n = length pat"
  by (induction pats) (auto simp: m_lit_def split: option.splits if_splits)

lemma sport_match_keyword:
  assumes "matchFirst sportPattern doc = Some m"
  shows "toLowerCase m \<in> set [''soccer'', ''football'', ''basketball'', ''tennis'',
                                ''volleyball'', ''swimming'']"
proof -
  from assms obtain i n where "sportPattern (drop i doc) = Some n" and m: "m = take n (drop i doc)"
    by (rule matchFirst_SomeD)
  then obtain pat where "pat \<in> set [''soccer'', ''football'', ''basketball'', ''tennis'',
                                ''volleyball'', ''swimming'']"
      and "toLowerCase (take (length pat) (drop i doc)) = pat" and "n = length pat"
    unfolding sportPattern_def by (blast dest: m_alts_lit_SomeD)
  then show ?thesis using m by simp
qed

lemma m_then_SomeD:
  "m_then a b s = Some n \<Longrightarrow> \<exists>i j. a s = Some i \<and> n = i + j"
  by (auto simp: m_then_def split: option.splits)

lemma m_many1_SomeD: "m_many1 P s = Some i \<Longrightarrow> s \<noteq> [] \<and> 0 < i"
  by (cases s) (auto simp: m_many1_def split: if_splits)

lemma m_lit_SomeD: "m_lit pat s = Some i \<Longrightarrow> pat \<noteq> [] \<Longrightarrow> s \<noteq> [] \<and> 0 < i"
  by (auto simp: m_lit_def toLowerCase_def split: if_splits)

lemma agePattern_SomeD:
  assumes "agePattern s = Some n"
  shows "s \<noteq> [] \<and> 0 < n"
proof -
  have "\<exists>i j. (m_many1 is_digit s = Some i \<or> m_lit ''under'' s = Some i \<or> m_lit ''u'' s = Some i)
          \<and> n = i + j"
    using assms unfolding agePattern_def
    by (auto split: option.splits dest!: m_then_SomeD)
  then show ?thesis
    using m_many1_SomeD [of is_digit s] m_lit_SomeD [of "''under''" s] m_lit_SomeD [of "''u''" s]
    by auto
qed

lemma age_match_nonempty:
  assumes "matchFirst agePattern doc = Some m"
  shows "m \<noteq> []"
proof -
  from assms obtain i n where a: "agePattern (drop i doc) = Some n" and m: "m = take n (drop i doc)"
    by (rule matchFirst_SomeD)
  from agePattern_SomeD [OF a] show ?thesis by (simp add: m)
qed

lemma academyLoop_firstSome:
  "academyLoop lines = Inr (case firstSome academyPattern lines of None \<Rightarrow> [] | Some m \<Rightarrow> js_trim m)"
proof (induction lines)
  case Nil
  then show ?case by simp
next
  case (Cons line ls)
  then show ?case
    by (cases "academyPattern line") (simp_all add: matchArray_def receiver_def element_def)
qed

lemma extractAcademyInfoChecked_returns:
  "extractAcademyInfoChecked doc plan sa = Inr (extractAcademyInfo doc plan sa)"
proof -
  have sport: "(case matchArray (matchFirst sportPattern doc) of
                  None \<Rightarrow> Inr []
                | Some sportMatch \<Rightarrow>
                    (case receiver (element sportMatch 1) of
                       Inl e \<Rightarrow> Inl e | Inr g \<Rightarrow> Inr (toLowerCase g)))
        = (Inr (case matchFirst sportPattern doc of None \<Rightarrow> [] | Some m \<Rightarrow> toLowerCase m)
             :: js_error + string)"
    by (cases "matchFirst sportPattern doc") (simp_all add: matchArray_def receiver_def element_def)
  have age: "(case matchArray (matchFirst agePattern doc) of
                         None \<Rightarrow> []
                       | Some ageMatch \<Rightarrow>
                           (case element ageMatch 1 of None \<Rightarrow> [] | Some g \<Rightarrow> g))
        = (case matchFirst agePattern doc of None \<Rightarrow> [] | Some m \<Rightarrow> m)"
    by (cases "matchFirst agePattern doc") (simp_all add: matchArray_def element_def)
  have prog: "(if length ls > 0
                      then (case receiver (element (map Some ls) 0) of
                              Inl e \<Rightarrow> Inl e | Inr l \<Rightarrow> Inr (js_trim l))
                      else Inr [])
        = (Inr (case ls of [] \<Rightarrow> [] | l # ls' \<Rightarrow> js_trim l) :: js_error + string)" for ls
    by (cases ls) (simp_all add: receiver_def element_def)
  show ?thesis
    unfolding extractAcademyInfoChecked_def extractAcademyInfo_def Let_def
      academyLoop_firstSome sport age prog
    by simp
qed

text \<open>
  C9. \<^verbatim>\<open>extractAcademyInfo\<close> never raises: with every method call on an array element
  written out, it returns for every text, plan metadata and optional analysis. Each field
  is decided in the order scan, plan metadata, hard default. The academy name is the
  trimmed match of the header scan; without a match it is the plan's \<^verbatim>\<open>academyName\<close>; if
  that is missing or empty, the plan's \<^verbatim>\<open>title\<close>; if that is missing or empty too,
  \<^verbatim>\<open>Training Academy\<close>. The sport is the matched keyword in lower case; without a match
  the plan's \<^verbatim>\<open>category\<close>; else \<^verbatim>\<open>soccer\<close>. The age group is the match, else \<^verbatim>\<open>Youth\<close>
  (the metadata has no field for it). The difficulty is never scanned: it is the plan's
  \<^verbatim>\<open>difficulty\<close>, else \<^verbatim>\<open>intermediate\<close>.
\<close>

theorem extractAcademyInfo_scan_metadata_default:
  fixes doc :: string and plan :: TrainingPlan and sa :: "StructureAnalysis option"
  defines "info \<equiv> extractAcademyInfo doc plan sa"
  shows
  "extractAcademyInfoChecked doc plan sa = Inr info
   \<and> (firstSome academyPattern (headerLines doc) = Some m \<longrightarrow> ai_academyName info = js_trim m)
   \<and> (firstSome academyPattern (headerLines doc) = None \<and> tp_academyName plan = Some a \<and> a \<noteq> []
        \<longrightarrow> ai_academyName info = a)
   \<and> (firstSome academyPattern (headerLines doc) = None
        \<and> (tp_academyName plan = None \<or> tp_academyName plan = Some [])
        \<and> tp_title plan = Some t \<and> t \<noteq> []
        \<longrightarrow> ai_academyName info = t)
   \<and> (firstSome academyPattern (headerLines doc) = None
        \<and> (tp_academyName plan = None \<or> tp_academyName plan = Some [])
        \<and> (tp_title plan = None \<or> tp_title plan = Some [])
        \<longrightarrow> ai_academyName info = ''Training Academy'')
   \<and> (matchFirst sportPattern doc = Some sm \<longrightarrow> ai_sport info = toLowerCase sm)
   \<and> (matchFirst sportPattern doc = None \<and> tp_category plan = Some c \<and> c \<noteq> []
        \<longrightarrow> ai_sport info = c)
   \<and> (matchFirst sportPattern doc = None
        \<and> (tp_category plan = None \<or> tp_category plan = Some [])
        \<longrightarrow> ai_sport info = ''soccer'')
   \<and> (matchFirst agePattern doc = Some am \<longrightarrow> ai_ageGroup info = am)
   \<and> (matchFirst agePattern doc = None \<longrightarrow> ai_ageGroup info = ''Youth'')
   \<and> (tp_difficulty plan = Some d \<and> d \<noteq> [] \<longrightarrow> ai_difficulty info = d)
   \<and> ((tp_difficulty plan = None \<or> tp_difficulty plan = Some [])
        \<longrightarrow> ai_difficulty info = ''intermediate'')"
proof (intro conjI impI)
  show "extractAcademyInfoChecked doc plan sa = Inr info"
    by (simp only: info_def extractAcademyInfoChecked_returns)
next
  assume h: "firstSome academyPattern (headerLines doc) = Some m"
  then obtain line where "academyPattern line = Some m"
    by (blast dest: firstSome_SomeD)
  then have "js_trim m \<noteq> []" by (rule academyPattern_trim_nonempty)
  then show "ai_academyName info = js_trim m"
    by (simp add: info_def extractAcademyInfo_def Let_def h)
next
  assume "firstSome academyPattern (headerLines doc) = None \<and> tp_academyName plan = Some a \<and> a \<noteq> []"
  then show "ai_academyName info = a"
    by (simp add: info_def extractAcademyInfo_def Let_def)
next
  assume "firstSome academyPattern (headerLines doc) = None
        \<and> (tp_academyName plan = None \<or> tp_academyName plan = Some [])
        \<and> tp_title plan = Some t \<and> t \<noteq> []"
  then show "ai_academyName info = t"
    by (auto simp: info_def extractAcademyInfo_def Let_def)
next
  assume "firstSome academyPattern (headerLines doc) = None
        \<and> (tp_academyName plan = None \<or> tp_academyName plan = Some [])
        \<and> (tp_title plan = None \<or> tp_title plan = Some [])"
  then show "ai_academyName info = ''Training Academy''"
    by (auto simp: info_def extractAcademyInfo_def Let_def)
next
  assume h: "matchFirst sportPattern doc = Some sm"
  then have "toLowerCase sm \<noteq> []"
    using sport_match_keyword [OF h] by auto
  then show "ai_sport info = toLowerCase sm"
    by (simp add: info_def extractAcademyInfo_def Let_def h)
next
  assume "matchFirst sportPattern doc = None \<and> tp_category plan = Some c \<and> c \<noteq> []"
  then show "ai_sport info = c"
    by (simp add: info_def extractAcademyInfo_def Let_def)
next
  assume "matchFirst sportPattern doc = None
        \<and> (tp_category plan = None \<or> tp_category plan = Some [])"
  then show "ai_sport info = ''soccer''"
    by (auto simp: info_def extractAcademyInfo_def Let_def)
next
  assume h: "matchFirst agePattern doc = Some am"
  then have "am \<noteq> []" by (rule age_match_nonempty)
  then show "ai_ageGroup info = am"
    by (simp add: info_def extractAcademyInfo_def Let_def h)
next
  assume "matchFirst agePattern doc = None"
  then show "ai_ageGroup info = ''Youth''"
    by (simp add: info_def extractAcademyInfo_def Let_def)
next
  assume "tp_difficulty plan = Some d \<and> d \<noteq> []"
  then show "ai_difficulty info = d"
    by (simp add: info_def extractAcademyInfo_def Let_def)
next
  assume "tp_difficulty plan = None \<or> tp_difficulty plan = Some []"
  then show "ai_difficulty info = ''intermediate''"
    by (auto simp: info_def extractAcademyInfo_def Let_def)
qed

theorem extractAcademyInfo_scan_metadata_default_witness:
  "ai_academyName (extractAcademyInfo clubText springPlan None) = ''RIVERSIDE CLUB''
   \<and> ai_sport (extractAcademyInfo clubText springPlan None) = ''tennis''
   \<and> ai_ageGroup (extractAcademyInfo clubText springPlan None) = ''U12''
   \<and> ai_difficulty (extractAcademyInfo clubText springPlan None) = ''beginner''
   \<and> ai_academyName (extractAcademyInfo ''Training notes'' namedPlan None) = ''Lions Academy''
   \<and> ai_academyName (extractAcademyInfo ''Training notes'' springPlan None) = ''Spring Plan''
   \<and> ai_sport (extractAcademyInfo ''Training notes'' springPlan None) = ''rugby''
   \<and> ai_academyName (extractAcademyInfo ''Training notes'' emptyPlan None) = ''Training Academy''
   \<and> ai_sport (extractAcademyInfo ''Training notes'' emptyPlan None) = ''soccer''
   \<and> ai_ageGroup (extractAcademyInfo ''Training notes'' emptyPlan None) = ''Youth''
   \<and> ai_difficulty (extractAcademyInfo ''Training notes'' emptyPlan None) = ''intermediate''
   \<and> extractAcademyInfoChecked ''Training notes'' emptyPlan None
       = Inr (extractAcademyInfo ''Training notes'' emptyPlan None)"
proof -
  have ca: "firstSome academyPattern (headerLines clubText) = Some ''RIVERSIDE CLUB''" by code_simp
  have ct: "js_trim ''RIVERSIDE CLUB'' = ''RIVERSIDE CLUB''" by code_simp
  have cs: "matchFirst sportPattern clubText = Some ''tennis''" by code_simp
  have cl: "toLowerCase ''tennis'' = ''tennis''" by code_simp
  have cg: "matchFirst agePattern clubText = Some ''U12''" by code_simp
  have na: "firstSome academyPattern (headerLines ''Training notes'') = None" by code_simp
  have ns: "matchFirst sportPattern ''Training notes'' = None" by code_simp
  have ng: "matchFirst agePattern ''Training notes'' = None" by code_simp
  have sp: "tp_academyName springPlan = Some []" "tp_title springPlan = Some ''Spring Plan''"
    "tp_category springPlan = Some ''rugby''" "tp_difficulty springPlan = Some ''beginner''"
    by (simp_all add: springPlan_def)
  have np: "tp_academyName namedPlan = Some ''Lions Academy''"
    by (simp add: namedPlan_def)
  have ep: "tp_academyName emptyPlan = None" "tp_title emptyPlan = None"
    "tp_category emptyPlan = None" "tp_difficulty emptyPlan = None"
    by (simp_all add: emptyPlan_def)
  note club = extractAcademyInfo_scan_metadata_default [where doc = clubText and plan = springPlan and sa = None
      and m = "''RIVERSIDE CLUB''" and sm = "''tennis''" and am = "''U12''" and d = "''beginner''"]
  note named = extractAcademyInfo_scan_metadata_default [where doc = "''Training notes''" and plan = namedPlan and sa = None
      and a = "''Lions Academy''"]
  note spring = extractAcademyInfo_scan_metadata_default [where doc = "''Training notes''" and plan = springPlan and sa = None
      and t = "''Spring Plan''" and c = "''rugby''"]
  note dflt = extractAcademyInfo_scan_metadata_default [where doc = "''Training notes''" and plan = emptyPlan and sa = None]
  show ?thesis
    using club named spring dflt
    by (simp add: ca ct cs cl cg na ns ng sp np ep)
qed

section \<open>Upcoming sessions\<close>

lemma upcomingSession_ignores_date:
  "upcomingSession clk (week\<lparr>ws_dailySessions := sessions\<rparr>) (session\<lparr>ds_date := d\<rparr>)
     = upcomingSession clk week session"
  by (simp add: upcomingSession_def)

text \<open>
  C10. \<^verbatim>\<open>convertToUpcomingSessions\<close> returns one entry per daily session of every week (as
  many entries as the weeks have daily sessions), in ascending order of \<^verbatim>\<open>date\<close>; the dates
  are those computed from each week's number and each session's day, and the date stored in
  a session has no influence on the result.
\<close>

theorem convertToUpcomingSessions_sorted_recomputed:
  "length (convertToUpcomingSessions clk extractedData)
     = sum_list (map (\<lambda>week. length (ws_dailySessions week)) (er_sessions extractedData))
   \<and> sorted (map us_date (convertToUpcomingSessions clk extractedData))
   \<and> mset (map us_date (convertToUpcomingSessions clk extractedData))
       = mset (concat (map (\<lambda>week. map (\<lambda>session. calculateSessionDate clk (ws_weekNumber week) (ds_day session))
                                          (ws_dailySessions week)) (er_sessions extractedData)))
   \<and> convertToUpcomingSessions clk
        (extractedData\<lparr>er_sessions :=
           map (\<lambda>week. week\<lparr>ws_dailySessions := map (\<lambda>session. session\<lparr>ds_date := stored session\<rparr>)
                                                      (ws_dailySessions week)\<rparr>)
             (er_sessions extractedData)\<rparr>)
       = convertToUpcomingSessions clk extractedData"
proof (intro conjI)
  show "length (convertToUpcomingSessions clk extractedData)
     = sum_list (map (\<lambda>week. length (ws_dailySessions week)) (er_sessions extractedData))"
    by (simp add: convertToUpcomingSessions_def length_concat comp_def)
  show "sorted (map us_date (convertToUpcomingSessions clk extractedData))"
    by (simp add: convertToUpcomingSessions_def sorted_sort_key)
  have "mset (map us_date (convertToUpcomingSessions clk extractedData))
      = mset (map us_date (concat (map (\<lambda>week. map (upcomingSession clk week) (ws_dailySessions week))
                  (er_sessions extractedData))))"
    by (simp add: convertToUpcomingSessions_def)
  also have "map us_date (concat (map (\<lambda>week. map (upcomingSession clk week) (ws_dailySessions week))
                  (er_sessions extractedData)))
      = concat (map (\<lambda>week. map (\<lambda>session. calculateSessionDate clk (ws_weekNumber week) (ds_day session))
                                          (ws_dailySessions week)) (er_sessions extractedData))"
    by (simp add: map_concat comp_def upcomingSession_def)
  finally show "mset (map us_date (convertToUpcomingSessions clk extractedData))
       = mset (concat (map (\<lambda>week. map (\<lambda>session. calculateSessionDate clk (ws_weekNumber week) (ds_day session))
                                          (ws_dailySessions week)) (er_sessions extractedData)))" .
  show "convertToUpcomingSessions clk
        (extractedData\<lparr>er_sessions :=
           map (\<lambda>week. week\<lparr>ws_dailySessions := map (\<lambda>session. session\<lparr>ds_date := stored session\<rparr>)
                                                      (ws_dailySessions week)\<rparr>)
             (er_sessions extractedData)\<rparr>)
       = convertToUpcomingSessions clk extractedData"
    by (simp add: convertToUpcomingSessions_def comp_def upcomingSession_ignores_date)
qed

section \<open>Strategy C: batches of three\<close>

lemma ceil_div3: "int ((n + 2) div 3) = \<lceil>real n / 3\<rceil>"
proof -
  have "\<lceil>real n / 3\<rceil> = \<lceil>real_of_int (int n) / real_of_int 3\<rceil>" by simp
  also have "\<dots> = - ((- int n) div 3)"
    by (simp only: ceiling_divide_eq_div)
  also have "\<dots> = int ((n + 2) div 3)"
    by (simp add: zdiv_int)
  finally show ?thesis by simp
qed

lemma sessionWeek_nth:
  assumes "k < (ss_totalSessions (sa_sessionStructure sa) + 2) div 3"
  shows "extractWithSessionStructure clk sa ai ! k =
     (let weekSessions =
            map (\<lambda>(index, sessionDetail). createSessionFromDetail clk sessionDetail (k + 1) (index + 1) ai)
              (enumerate 0 (js_slice (ss_sessionDetails (sa_sessionStructure sa)) (k * 3)
                              (min (k * 3 + 3) (ss_totalSessions (sa_sessionStructure sa)))))
      in \<lparr>ws_weekNumber = k + 1, ws_dailySessions = weekSessions,
          ws_totalDuration = totalDurationOf weekSessions\<rparr>)"
  using assms unfolding extractWithSessionStructure_def Let_def
  by (simp del: upt_Suc)

lemma length_sessionWeeks:
  "length (extractWithSessionStructure clk sa ai) = (ss_totalSessions (sa_sessionStructure sa) + 2) div 3"
  unfolding extractWithSessionStructure_def Let_def by simp

lemma js_slice_batch:
  "js_slice xs (k * 3) (min (k * 3 + 3) n) = take 3 (drop (3 * k) (take n xs))"
proof -
  have "take 3 (drop (3 * k) (take n xs)) = take 3 (take (n - 3 * k) (drop (3 * k) xs))"
    by (simp add: drop_take)
  also have "\<dots> = take (min 3 (n - 3 * k)) (drop (3 * k) xs)"
    by simp
  also have "min 3 (n - 3 * k) = min (k * 3 + 3) n - k * 3"
    by linarith
  finally show ?thesis by (simp add: js_slice_def mult.commute)
qed

lemma mapSessionToDay_rotation:
  assumes "j < 7"
  shows "mapSessionToDay (j + 1) = sessionRotation ! j"
  using assms by (simp add: mapSessionToDay_def sessionRotation_def)

text \<open>
  C6. Strategy C produces \<open>\<lceil>totalSessions / 3\<rceil>\<close> weeks, numbered from 1. Week \<open>k + 1\<close>
  holds the sessions made from the next three entries of the analyzer's session details
  (entries \<open>3k, 3k + 1, 3k + 2\<close> of its first \<open>totalSessions\<close> entries), in order. Every daily
  session lasts 90 minutes and starts at \<^verbatim>\<open>08:00\<close>; the session at position \<open>j\<close> of its week
  has day number \<open>j + 1\<close> and the day at position \<open>j\<close> of the rotation Monday, Wednesday,
  Friday, Tuesday, Thursday, Saturday, Sunday.
\<close>

theorem session_grouping_batches:
  fixes sa :: StructureAnalysis
  defines "totalSessions \<equiv> ss_totalSessions (sa_sessionStructure sa)"
    and "details \<equiv> ss_sessionDetails (sa_sessionStructure sa)"
  shows "int (length (extractWithSessionStructure clk sa ai)) = \<lceil>real totalSessions / 3\<rceil>
   \<and> (\<forall>k < length (extractWithSessionStructure clk sa ai).
         ws_weekNumber (extractWithSessionStructure clk sa ai ! k) = k + 1
         \<and> map ds_rawContent (ws_dailySessions (extractWithSessionStructure clk sa ai ! k))
             = map sd_text (take 3 (drop (3 * k) (take totalSessions details))))
   \<and> (\<forall>w \<in> set (extractWithSessionStructure clk sa ai). \<forall>j < length (ws_dailySessions w).
         ds_duration (ws_dailySessions w ! j) = 90
         \<and> ds_time (ws_dailySessions w ! j) = ''08:00''
         \<and> ds_dayNumber (ws_dailySessions w ! j) = j + 1
         \<and> ds_day (ws_dailySessions w ! j) = sessionRotation ! j)"
proof (intro conjI allI ballI impI)
  show "int (length (extractWithSessionStructure clk sa ai)) = \<lceil>real totalSessions / 3\<rceil>"
    by (simp only: length_sessionWeeks ceil_div3 totalSessions_def)
next
  fix k assume "k < length (extractWithSessionStructure clk sa ai)"
  then have k: "k < (ss_totalSessions (sa_sessionStructure sa) + 2) div 3"
    by (simp only: length_sessionWeeks)
  show "ws_weekNumber (extractWithSessionStructure clk sa ai ! k) = k + 1"
    by (simp add: sessionWeek_nth [OF k] Let_def)
  show "map ds_rawContent (ws_dailySessions (extractWithSessionStructure clk sa ai ! k))
             = map sd_text (take 3 (drop (3 * k) (take totalSessions details)))"
  proof -
    have "map ds_rawContent (map (\<lambda>(index, sessionDetail).
              createSessionFromDetail clk sessionDetail (k + 1) (index + 1) ai) (enumerate 0 xs))
          = map sd_text xs" for xs
      by (simp add: createSessionFromDetail_def comp_def case_prod_unfold map_snd_enumerate [symmetric] del: map_snd_enumerate)
         (simp add: map_snd_enumerate flip: map_map [unfolded comp_def])
    then show ?thesis
      by (simp add: sessionWeek_nth [OF k] Let_def js_slice_batch totalSessions_def details_def)
  qed
next
  fix w j
  assume w: "w \<in> set (extractWithSessionStructure clk sa ai)" and j: "j < length (ws_dailySessions w)"
  from w obtain k where k: "k < length (extractWithSessionStructure clk sa ai)"
      and wk: "w = extractWithSessionStructure clk sa ai ! k"
    by (auto simp: in_set_conv_nth)
  from k have k': "k < (ss_totalSessions (sa_sessionStructure sa) + 2) div 3"
    by (simp only: length_sessionWeeks)
  define xs where "xs = js_slice (ss_sessionDetails (sa_sessionStructure sa)) (k * 3)
                              (min (k * 3 + 3) (ss_totalSessions (sa_sessionStructure sa)))"
  have ds: "ws_dailySessions w = map (\<lambda>(index, sessionDetail).
              createSessionFromDetail clk sessionDetail (k + 1) (index + 1) ai) (enumerate 0 xs)"
    by (simp add: wk sessionWeek_nth [OF k'] Let_def xs_def)
  have lx: "length xs \<le> 3"
    by (simp add: xs_def js_slice_batch)
  have jx: "j < length xs" using j by (simp add: ds)
  have nth: "ws_dailySessions w ! j = createSessionFromDetail clk (xs ! j) (k + 1) (j + 1) ai"
    using jx by (simp add: ds nth_enumerate_eq)
  show "ds_duration (ws_dailySessions w ! j) = 90"
    by (simp add: nth createSessionFromDetail_def)
  show "ds_time (ws_dailySessions w ! j) = ''08:00''"
    by (simp add: nth createSessionFromDetail_def)
  show "ds_dayNumber (ws_dailySessions w ! j) = j + 1"
    by (simp add: nth createSessionFromDetail_def)
  have "j < 7" using jx lx by simp
  then show "ds_day (ws_dailySessions w ! j) = sessionRotation ! j"
    by (simp add: nth createSessionFromDetail_def mapSessionToDay_rotation del: One_nat_def)
qed

theorem session_grouping_batches_witness:
  "ds_day (ws_dailySessions (extractWithSessionStructure exampleClock fourSessions exampleAcademy ! 0) ! 2)
     = sessionRotation ! 2
   \<and> ds_duration (ws_dailySessions (extractWithSessionStructure exampleClock fourSessions exampleAcademy ! 0) ! 2) = 90
   \<and> sessionRotation ! 2 = ''friday''
   \<and> map ds_rawContent (ws_dailySessions (extractWithSessionStructure exampleClock fourSessions exampleAcademy ! 1))
       = [''Small-sided game'']
   \<and> length (extractWithSessionStructure exampleClock fourSessions exampleAcademy) = 2"
proof -
  let ?r = "extractWithSessionStructure exampleClock fourSessions exampleAcademy"
  have len: "length ?r = 2"
    by (simp add: length_sessionWeeks fourSessions_def analysisOf_def)
  have w0: "?r ! 0 \<in> set ?r" by (rule nth_mem) (simp add: len)
  have d0: "length (ws_dailySessions (?r ! 0)) = 3"
    by (simp add: sessionWeek_nth fourSessions_def analysisOf_def js_slice_def Let_def)
  have j: "2 < length (ws_dailySessions (?r ! 0))" by (simp add: d0)
  have k: "1 < length ?r" by (simp add: len)
  have t: "ss_totalSessions (sa_sessionStructure fourSessions) = 4"
    by (simp add: fourSessions_def analysisOf_def)
  have b: "map sd_text (take 3 (drop (3 * 1) (take 4 (ss_sessionDetails (sa_sessionStructure fourSessions)))))
             = [''Small-sided game'']"
    by (simp add: fourSessions_def analysisOf_def)
  have r: "sessionRotation ! 2 = ''friday''" by (simp add: sessionRotation_def)
  show ?thesis
    using session_grouping_batches [of exampleClock fourSessions exampleAcademy] w0 j k len b r
    unfolding t by (metis (no_types, lifting))
qed

section \<open>Week numbers of the strategies\<close>

















end
